theory Spec2Isabelle
  imports Main "HOL-Library.Word" "HOL-Library.Sublist"
begin

unbundle bit_operations_syntax

text \<open>
  A Python string is modelled by the bytes of its UTF-8 encoding, as a \<^typ>\<open>string\<close>;
  a file is the list of its bytes.
\<close>

section \<open>Severity levels\<close>

text \<open>
  The module \<^verbatim>\<open>logHandler.py\<close> builds its logger on Python's \<^verbatim>\<open>logging\<close>.
  Class \<^verbatim>\<open>Logger\<close> imports the standard levels
  (\<^verbatim>\<open>from logging import DEBUG, INFO, WARNING, WARN, ERROR, CRITICAL\<close>, whose values
  the standard library fixes at 10, 20, 30, 30, 40 and 50) and adds three of its own:
  \<^verbatim>\<open>IO = 12\<close>, \<^verbatim>\<open>DEBUGWARNING = 15\<close>, \<^verbatim>\<open>OFF = 100\<close>.
  Levels are Python integers, hence \<^typ>\<open>int\<close>.
\<close>

type_synonym level = int

definition DEBUG :: level where "DEBUG = 10"
definition INFO :: level where "INFO = 20"
definition WARNING :: level where "WARNING = 30"
definition WARN :: level where "WARN = 30"
definition ERROR :: level where "ERROR = 40"
definition CRITICAL :: level where "CRITICAL = 50"
definition IO :: level where "IO = 12"
definition DEBUGWARNING :: level where "DEBUGWARNING = 15"
definition OFF :: level where "OFF = 100"

text \<open>
  \<^verbatim>\<open>Logger.isEnabledFor(level)\<close> is inherited from the standard library: the singleton
  logger \<^verbatim>\<open>log\<close> has no level of its own, so its effective level is the one given to
  \<^verbatim>\<open>log.root.setLevel\<close>. A level is disabled when it is not above
  \<^verbatim>\<open>manager.disable\<close>, which is 0 since the module never calls \<^verbatim>\<open>logging.disable\<close>;
  otherwise it is enabled when it is not below the threshold.
\<close>

definition isEnabledFor :: "level \<Rightarrow> level \<Rightarrow> bool" where
  "isEnabledFor threshold lvl = (if lvl \<le> 0 then False else threshold \<le> lvl)"

text \<open>The eight named levels, and the order in which the specification lists them.\<close>

definition namedLevels :: "level list" where
  "namedLevels = [DEBUG, IO, DEBUGWARNING, INFO, WARNING, ERROR, CRITICAL, OFF]"

definition spec_levelOrder :: "level list" where
  "spec_levelOrder = [IO, DEBUG, DEBUGWARNING, INFO, WARNING, ERROR, CRITICAL, OFF]"

section \<open>Exception classifier\<close>

text \<open>
  The error codes the module defines itself (lines 38 to 43 of the source).
\<close>

definition ERROR_INVALID_WINDOW_HANDLE :: int where "ERROR_INVALID_WINDOW_HANDLE = 1400"
definition ERROR_TIMEOUT :: int where "ERROR_TIMEOUT = 1460"
definition EPT_S_NOT_REGISTERED :: int where "EPT_S_NOT_REGISTERED = 1753"
definition E_ACCESSDENIED :: int where "E_ACCESSDENIED = - 2147024891"
definition CO_E_OBJNOTCONNECTED :: int where "CO_E_OBJNOTCONNECTED = - 2147220995"
definition EVENT_E_ALL_SUBSCRIBERS_FAILED :: int where
  "EVENT_E_ALL_SUBSCRIBERS_FAILED = - 2147220991"

text \<open>
  The remaining codes come from the module \<^verbatim>\<open>RPCConstants\<close>, which
  \<^verbatim>\<open>logHandler.py\<close> only imports. They are a parameter of the classifier: a record
  with one field for each member of \<^verbatim>\<open>RPCConstants.RPC\<close> that the source reads.
\<close>

record rpc_constants =
  S_SERVER_UNAVAILABLE :: int
  S_CALL_FAILED_DNE :: int
  E_CALL_REJECTED :: int
  E_CALL_CANCELED :: int
  E_DISCONNECTED :: int

text \<open>
  The values that Windows gives these names (\<^verbatim>\<open>RPC_S_SERVER_UNAVAILABLE\<close> is 1722,
  \<^verbatim>\<open>RPC_S_CALL_FAILED_DNE\<close> is 1727, and the three \<^verbatim>\<open>RPC_E_\<close> results are
  0x80010001, 0x80010002 and 0x80010108 read as signed 32-bit numbers). They serve as
  the concrete instance on which the classifier is evaluated.
\<close>

definition windowsRPC :: rpc_constants where
  "windowsRPC = \<lparr> S_SERVER_UNAVAILABLE = 1722, S_CALL_FAILED_DNE = 1727,
     E_CALL_REJECTED = - 2147418111, E_CALL_CANCELED = - 2147418110,
     E_DISCONNECTED = - 2147417848 \<rparr>"

text \<open>
  The exception values that \<^verbatim>\<open>Logger.exception\<close> tells apart with
  \<^verbatim>\<open>isinstance\<close>. A \<^verbatim>\<open>WindowsError\<close> carries \<^verbatim>\<open>winerror\<close>, which is
  \<^verbatim>\<open>None\<close> when the error was not raised by a Windows call; a
  \<^verbatim>\<open>comtypes.COMError\<close> carries \<^verbatim>\<open>hresult\<close>; \<^verbatim>\<open>exceptions.CallCancelled\<close>
  carries nothing the classifier reads. Every other exception is \<open>OtherException\<close>
  with the name of its class. The second component of \<^verbatim>\<open>exc_info\<close> may also be
  \<^verbatim>\<open>None\<close>, so the classifier takes an \<^typ>\<open>'a option\<close>.
\<close>

datatype py_exception =
    WindowsError "int option"
  | COMError int
  | CallCancelled
  | OtherException string

text \<open>
  The condition of the \<^verbatim>\<open>if\<close> at lines 296 to 325, one disjunct for each
  \<^verbatim>\<open>isinstance\<close> test. Python's \<^verbatim>\<open>&\<close> on unbounded integers is two's complement,
  as is \<open>AND\<close> on \<^typ>\<open>int\<close>.
\<close>

fun isExpectedException :: "rpc_constants \<Rightarrow> py_exception option \<Rightarrow> bool" where
  "isExpectedException rpc (Some (WindowsError winerror)) =
     (case winerror of
        None \<Rightarrow> False
      | Some code \<Rightarrow> code \<in> set [ERROR_INVALID_WINDOW_HANDLE, ERROR_TIMEOUT,
          S_SERVER_UNAVAILABLE rpc, S_CALL_FAILED_DNE rpc, EPT_S_NOT_REGISTERED,
          E_CALL_CANCELED rpc])"
| "isExpectedException rpc (Some (COMError hresult)) =
     (hresult \<in> set [E_ACCESSDENIED, CO_E_OBJNOTCONNECTED, EVENT_E_ALL_SUBSCRIBERS_FAILED,
        E_CALL_REJECTED rpc, E_CALL_CANCELED rpc, E_DISCONNECTED rpc]
      \<or> hresult AND 0xFFFF = S_SERVER_UNAVAILABLE rpc)"
| "isExpectedException rpc (Some CallCancelled) = True"
| "isExpectedException rpc (Some (OtherException cls)) = False"
| "isExpectedException rpc None = False"

definition exceptionLevel :: "rpc_constants \<Rightarrow> py_exception option \<Rightarrow> level" where
  "exceptionLevel rpc exc = (if isExpectedException rpc exc then DEBUGWARNING else ERROR)"

text \<open>
  The classification in the words of the specification: the platform allow-list as the
  specification enumerates it (invalid handle, operation timeout, RPC server
  unavailable, RPC endpoint not registered, RPC call cancelled), the COM allow-list,
  the low 16 bits, and the cancellation exception.
\<close>

fun spec_isExpectedException :: "rpc_constants \<Rightarrow> py_exception option \<Rightarrow> bool" where
  "spec_isExpectedException rpc (Some (WindowsError (Some code))) =
     (code \<in> set [ERROR_INVALID_WINDOW_HANDLE, ERROR_TIMEOUT, S_SERVER_UNAVAILABLE rpc,
        EPT_S_NOT_REGISTERED, E_CALL_CANCELED rpc])"
| "spec_isExpectedException rpc (Some (COMError hresult)) =
     (hresult \<in> set [E_ACCESSDENIED, CO_E_OBJNOTCONNECTED, EVENT_E_ALL_SUBSCRIBERS_FAILED,
        E_CALL_REJECTED rpc, E_CALL_CANCELED rpc, E_DISCONNECTED rpc]
      \<or> hresult AND 0xFFFF = S_SERVER_UNAVAILABLE rpc)"
| "spec_isExpectedException rpc (Some CallCancelled) = True"
| "spec_isExpectedException rpc _ = False"

section \<open>Frame inspector\<close>

text \<open>
  What Python raises implicitly in the functions below: indexing an empty string or
  tuple, a missing dictionary key, \<^verbatim>\<open>open(None)\<close>, a log file that does not exist,
  bytes that are not UTF-8.
\<close>

datatype py_error = IndexError | KeyError | TypeError | FileNotFoundError | UnicodeDecodeError

text \<open>
  A code object is compared with \<^verbatim>\<open>is\<close> only, so it is modelled by its identity.
  A member of a class dictionary is told apart by \<^verbatim>\<open>type(member)\<close>:
  a plain function with its \<^verbatim>\<open>__code__\<close>; a \<^verbatim>\<open>classmethod\<close> with the code of
  \<^verbatim>\<open>__func__\<close> when that is a plain function; a \<^verbatim>\<open>property\<close> with the code of
  \<^verbatim>\<open>fget\<close>, \<^verbatim>\<open>fset\<close> and \<^verbatim>\<open>fdel\<close>, each present when it is a plain function;
  a \<^verbatim>\<open>staticmethod\<close>; and any other value.
\<close>

type_synonym code_id = nat

datatype member =
    FunctionMember code_id
  | ClassMethodMember "code_id option"
  | PropertyMember "code_id option" "code_id option" "code_id option"
  | StaticMethodMember "code_id option"
  | OtherMember

text \<open>
  A class has a \<^verbatim>\<open>__name__\<close> and a \<^verbatim>\<open>__dict__\<close>. A value is either a class
  object, given by its \<^verbatim>\<open>__mro__\<close> (the class itself first), or an instance, given by
  the \<^verbatim>\<open>__mro__\<close> of its type.
\<close>

record py_class =
  cls_name :: string
  cls_dict :: "string \<rightharpoonup> member"

datatype py_value = TypeObject "py_class list" | Instance "py_class list"

text \<open>
  The parts of a frame that \<^verbatim>\<open>getCodePath\<close> and \<^verbatim>\<open>Logger._log\<close> read:
  \<^verbatim>\<open>f.f_code.co_filename\<close>, \<^verbatim>\<open>f.f_globals.get("__name__")\<close>,
  \<^verbatim>\<open>f.f_code.co_name\<close>, \<^verbatim>\<open>co_argcount\<close>, \<^verbatim>\<open>co_varnames\<close>, \<^verbatim>\<open>f.f_locals\<close>,
  the identity of \<^verbatim>\<open>f.f_code\<close>, and the lines that
  \<^verbatim>\<open>traceback.format_list(traceback.extract_stack(f))\<close> gives.
\<close>

record frame =
  co_filename :: string
  f_globals_name :: "string option"
  co_name :: string
  co_argcount :: nat
  co_varnames :: "string list"
  f_locals :: "string \<rightharpoonup> py_value"
  f_code :: code_id
  f_stack :: "string list"

text \<open>
  What the module takes from its environment: \<^verbatim>\<open>os.path.isabs\<close>,
  \<^verbatim>\<open>os.path.normpath\<close>, the directory \<^verbatim>\<open>_NVDA_CODE_PATH\<close>,
  \<^verbatim>\<open>WritePaths.configDir\<close>, and \<^verbatim>\<open>stripBasePathFromTracebackText\<close> (one of two
  functions, chosen when the module is loaded).
\<close>

record os_env =
  isabs :: "string \<Rightarrow> bool"
  normpath :: "string \<Rightarrow> string"
  NVDA_CODE_PATH :: string
  configDir :: "string option"
  stripBasePathFromTracebackText :: "string \<Rightarrow> string"

text \<open>
  \<^verbatim>\<open>isPathExternalToNVDA\<close>: \<^verbatim>\<open>path[0]\<close> raises on the empty string;
  \<^verbatim>\<open>and\<close> binds tighter than \<^verbatim>\<open>or\<close>. Character 0x5C is the backslash.
\<close>

definition isPathExternalToNVDA :: "os_env \<Rightarrow> string \<Rightarrow> py_error + bool" where
  "isPathExternalToNVDA env path =
     (if path = [] then Inl IndexError
      else Inr ((hd path \<noteq> CHR ''<'' \<and> isabs env path
                 \<and> \<not> prefix (NVDA_CODE_PATH env @ [CHR 0x5C]) (normpath env path))
                \<or> (case configDir env of
                      None \<Rightarrow> False
                    | Some d \<Rightarrow> prefix d path)))"

text \<open>
  The \<^verbatim>\<open>if\<close>/\<^verbatim>\<open>elif\<close> chain of lines 133 to 150: whether \<^verbatim>\<open>className\<close> is
  assigned for this member.
\<close>

fun memberMatches :: "code_id \<Rightarrow> member \<Rightarrow> bool" where
  "memberMatches code (FunctionMember c) = (c = code)"
| "memberMatches code (ClassMethodMember func) = (func = Some code)"
| "memberMatches code (PropertyMember fget fset fdel) = (fget = Some code \<or> fset = Some code)"
| "memberMatches code (StaticMethodMember func) = False"
| "memberMatches code OtherMember = False"

text \<open>
  The loop \<^verbatim>\<open>for cls in topCls.__mro__\<close>. A missing key gives \<^verbatim>\<open>None\<close>, and the loop
  continues; a member that is falsy is an \<open>OtherMember\<close>, for which nothing is
  assigned either. The loop breaks once \<^verbatim>\<open>className\<close> is a non-empty string.
\<close>

fun mroLoop :: "code_id \<Rightarrow> string \<Rightarrow> py_class list \<Rightarrow> string" where
  "mroLoop code funcName [] = []"
| "mroLoop code funcName (cls # rest) =
     (case cls_dict cls funcName of
        None \<Rightarrow> mroLoop code funcName rest
      | Some member \<Rightarrow>
          (let className = (if memberMatches code member then cls_name cls else [])
           in if className \<noteq> [] then className else mroLoop code funcName rest))"

text \<open>
  \<^verbatim>\<open>topCls = arg0 if isinstance(arg0, type) else type(arg0)\<close>, as its MRO.
  \<^verbatim>\<open>hasattr(topCls, funcName)\<close> finds the name in the dictionary of a class of the
  MRO; the attributes that the metaclass adds are in none of these dictionaries, so
  for them the loop assigns nothing.
\<close>

fun topCls_mro :: "py_value \<Rightarrow> py_class list" where
  "topCls_mro (TypeObject mro) = mro"
| "topCls_mro (Instance mro) = mro"

definition hasattr :: "py_class list \<Rightarrow> string \<Rightarrow> bool" where
  "hasattr mro attr = list_ex (\<lambda>cls. cls_dict cls attr \<noteq> None) mro"

text \<open>
  Lines 112 to 152: the class segment. \<^verbatim>\<open>co_varnames[0]\<close> and the lookup in
  \<^verbatim>\<open>f_locals\<close> raise when the name is missing. Clearing \<^verbatim>\<open>f_locals\<close> afterwards
  changes no value that is read later.
\<close>

definition resolveClassName :: "frame \<Rightarrow> string \<Rightarrow> py_error + string" where
  "resolveClassName f funcName =
     (if co_argcount f = 0 then Inr []
      else case co_varnames f of
        [] \<Rightarrow> Inl IndexError
      | v # vs \<Rightarrow>
          (case f_locals f v of
             None \<Rightarrow> Inl KeyError
           | Some arg0 \<Rightarrow>
               (let topCls = topCls_mro arg0
                in if hasattr topCls funcName
                   then Inr (mroLoop (f_code f) funcName topCls)
                   else Inr [])))"

text \<open>\<^verbatim>\<open>".".join(...)\<close> over the segments that are not empty.\<close>

fun joinDot :: "string list \<Rightarrow> string" where
  "joinDot [] = []"
| "joinDot [x] = x"
| "joinDot (x # y # ys) = x @ ''.'' @ joinDot (y # ys)"

definition modulePath :: "os_env \<Rightarrow> frame \<Rightarrow> py_error + string" where
  "modulePath env f =
     (case isPathExternalToNVDA env (co_filename f) of
        Inl e \<Rightarrow> Inl e
      | Inr external \<Rightarrow>
          Inr ((if external then ''external:'' else [])
               @ (case f_globals_name f of
                    Some n \<Rightarrow> n
                  | None \<Rightarrow> co_filename f)))"

definition getCodePath :: "os_env \<Rightarrow> frame \<Rightarrow> py_error + string" where
  "getCodePath env f =
     (case modulePath env f of
        Inl e \<Rightarrow> Inl e
      | Inr path \<Rightarrow>
          (let funcName = (if prefix ''<'' (co_name f) then [] else co_name f)
           in case resolveClassName f funcName of
                Inl e \<Rightarrow> Inl e
              | Inr className \<Rightarrow>
                  Inr (joinDot (filter (\<lambda>x. x \<noteq> []) [path, className, funcName]))))"

text \<open>
  The classes for which the loop stops: the class has a name, and its dictionary
  holds, under the given attribute name, a function, a class method or a property
  whose getter or setter has the given code.
\<close>

definition definesMethod :: "code_id \<Rightarrow> string \<Rightarrow> py_class \<Rightarrow> bool" where
  "definesMethod code attr cls =
     (cls_name cls \<noteq> []
      \<and> (case cls_dict cls attr of
            Some (FunctionMember c) \<Rightarrow> c = code
          | Some (ClassMethodMember func) \<Rightarrow> func = Some code
          | Some (PropertyMember fget fset fdel) \<Rightarrow> fget = Some code \<or> fset = Some code
          | _ \<Rightarrow> False))"

text \<open>
  The condition in the words of the specification, for which a property accessor is
  any of the three functions of a property: getter, setter or deleter.
\<close>

definition spec_definesMethod :: "code_id \<Rightarrow> string \<Rightarrow> py_class \<Rightarrow> bool" where
  "spec_definesMethod code attr cls =
     (cls_name cls \<noteq> []
      \<and> (case cls_dict cls attr of
            Some (FunctionMember c) \<Rightarrow> c = code
          | Some (ClassMethodMember func) \<Rightarrow> func = Some code
          | Some (PropertyMember fget fset fdel) \<Rightarrow>
              fget = Some code \<or> fset = Some code \<or> fdel = Some code
          | _ \<Rightarrow> False))"

section \<open>Logger state\<close>

text \<open>
  \<^verbatim>\<open>globalVars.appArgs\<close>, as far as the module reads it. \<^verbatim>\<open>logFileName\<close> is
  \<^verbatim>\<open>None\<close> or a string; both \<^verbatim>\<open>None\<close> and the empty string are falsy.
\<close>

record app_args =
  secure :: bool
  debugLogging :: bool
  noLogging :: bool
  logLevel :: int
  logFileName :: "string option"

text \<open>
  The global \<^verbatim>\<open>logHandler\<close>: \<^verbatim>\<open>None\<close> before \<^verbatim>\<open>initialize\<close>, then a
  \<^verbatim>\<open>logging.NullHandler\<close>, the module's \<^verbatim>\<open>FileHandler\<close> or its
  \<^verbatim>\<open>RemoteHandler\<close>.
\<close>

datatype handler = NoHandler | NullHandler | FileHandler | RemoteHandler

text \<open>The calls made to the log viewer of the GUI, in order.\<close>

datatype viewer_call = Activate | SetInsertionPointEnd | Refresh

text \<open>
  A record as \<^verbatim>\<open>Logger._log\<close> hands it to \<^verbatim>\<open>logging.Logger._log\<close>: level,
  message, the exception of \<^verbatim>\<open>exc_info\<close>, and the codepath put into \<^verbatim>\<open>extra\<close>.
\<close>

record log_record =
  rec_levelno :: level
  rec_msg :: string
  rec_exc :: "py_exception option"
  rec_codepath :: string

text \<open>
  The state the module works on: the command line, the level of the root logger,
  the handler, the fragment mark of the singleton \<^verbatim>\<open>log\<close>, the files by name, the
  value of \<^verbatim>\<open>config.conf["general"]["loggingLevel"]\<close>, the exception being handled
  (the second component of \<^verbatim>\<open>sys.exc_info()\<close>), the records handed on so far, and
  the calls made to the log viewer.
\<close>

record nvda =
  appArgs :: app_args
  rootLevel :: level
  logHandler :: handler
  fragmentStart :: "nat option"
  files :: "string \<rightharpoonup> string"
  loggingLevel :: string
  sys_exc :: "py_exception option"
  emitted :: "log_record list"
  viewerCalls :: "viewer_call list"

section \<open>Logger\<close>

text \<open>
  \<^verbatim>\<open>stack_info\<close> is falsy (\<^verbatim>\<open>None\<close>, \<^verbatim>\<open>False\<close> or an empty list), \<^verbatim>\<open>True\<close>,
  or a list of stack entries, given here by the lines \<^verbatim>\<open>traceback.format_list\<close>
  makes of it.
\<close>

datatype stack_info = NoStackInfo | StackTrue | StackSummary "string list"

text \<open>
  \<^verbatim>\<open>str.rstrip()\<close> removes trailing white space. The white space characters of
  Python, in UTF-8: the characters 9 to 13 and 28 to 32, U+0085, U+00A0, U+1680,
  U+2000 to U+200A, U+2028, U+2029, U+202F, U+205F and U+3000.
\<close>

definition whiteSpace :: "string list" where
  "whiteSpace = map (map char_of)
     ([[9], [10], [11], [12], [13], [28], [29], [30], [31], [32],
       [0xC2, 0x85], [0xC2, 0xA0], [0xE1, 0x9A, 0x80]]
      @ map (\<lambda>n. [0xE2, 0x80, n]) [0x80 ..< 0x8B]
      @ [[0xE2, 0x80, 0xA8], [0xE2, 0x80, 0xA9], [0xE2, 0x80, 0xAF], [0xE2, 0x81, 0x9F],
         [0xE3, 0x80, 0x80 :: nat]])"

function rstrip :: "string \<Rightarrow> string" where
  "rstrip s =
     (case find (\<lambda>w. suffix w s) whiteSpace of
        None \<Rightarrow> s
      | Some w \<Rightarrow> rstrip (take (length s - length w) s))"
  by pat_completeness auto
termination
proof (relation "measure length")
  show "wf (measure length)" by simp
next
  fix s :: string and w
  assume "find (\<lambda>w. suffix w s) whiteSpace = Some w"
  then have "suffix w s" "w \<in> set whiteSpace"
    by (auto simp: find_Some_iff)
  moreover have "\<forall>w \<in> set whiteSpace. w \<noteq> []"
    by (simp add: whiteSpace_def)
  ultimately have "0 < length w" "length w \<le> length s"
    by (auto simp: suffix_length_le)
  then have "length s - length w < length s"
    by arith
  then show "(take (length s - length w) s, s) \<in> measure length"
    by simp
qed

definition stackTraceText :: "os_env \<Rightarrow> string list \<Rightarrow> string" where
  "stackTraceText env entries =
     [CHR 0x0A] @ ''Stack trace:'' @ [CHR 0x0A]
       @ stripBasePathFromTracebackText env (rstrip (concat entries))"

text \<open>
  \<^verbatim>\<open>super()._log(level, msg, args, exc_info, extra)\<close>: the standard library makes the
  record and hands it to the handlers.
\<close>

definition super_log :: "level \<Rightarrow> string \<Rightarrow> py_exception option \<Rightarrow> string \<Rightarrow> nvda \<Rightarrow> nvda" where
  "super_log lvl m exc cp s =
     s\<lparr> emitted := emitted s
          @ [\<lparr> rec_levelno = lvl, rec_msg = m, rec_exc = exc, rec_codepath = cp \<rparr>] \<rparr>"

text \<open>
  \<^verbatim>\<open>Logger._log\<close> (lines 220 to 268). The argument \<open>f\<close> is the frame
  \<^verbatim>\<open>inspect.currentframe().f_back.f_back\<close>; \<open>cp\<close> is the \<^verbatim>\<open>codepath\<close> argument,
  empty when none is given.
\<close>

definition Logger_log ::
  "os_env \<Rightarrow> level \<Rightarrow> string \<Rightarrow> py_exception option \<Rightarrow> string \<Rightarrow> bool \<Rightarrow> stack_info
     \<Rightarrow> frame \<Rightarrow> nvda \<Rightarrow> py_error + nvda" where
  "Logger_log env lvl m exc cp activateLogViewer stack f s =
     (case (if cp = [] then getCodePath env f else Inr cp) of
        Inl e \<Rightarrow> Inl e
      | Inr codepath \<Rightarrow>
          (let activate = (if secure (appArgs s) then False else activateLogViewer);
               s1 = (if activate
                     then s\<lparr> viewerCalls := viewerCalls s @ [Activate, SetInsertionPointEnd] \<rparr>
                     else s);
               m1 = (case stack of
                       NoStackInfo \<Rightarrow> m
                     | StackTrue \<Rightarrow> m @ stackTraceText env (f_stack f)
                     | StackSummary entries \<Rightarrow>
                         if entries = [] then m else m @ stackTraceText env entries);
               s2 = super_log lvl m1 exc codepath s1
           in Inr (if activate then s2\<lparr> viewerCalls := viewerCalls s2 @ [Refresh] \<rparr> else s2)))"

text \<open>
  The level-specific entry points: \<^verbatim>\<open>debugWarning\<close> and \<^verbatim>\<open>io\<close> of the module, and
  \<^verbatim>\<open>warning\<close> of the standard library, which has the same shape.
\<close>

definition Logger_debugWarning ::
  "os_env \<Rightarrow> string \<Rightarrow> string \<Rightarrow> bool \<Rightarrow> stack_info \<Rightarrow> frame \<Rightarrow> nvda \<Rightarrow> py_error + nvda" where
  "Logger_debugWarning env m cp activateLogViewer stack f s =
     (if \<not> isEnabledFor (rootLevel s) DEBUGWARNING then Inr s
      else Logger_log env DEBUGWARNING m None cp activateLogViewer stack f s)"

definition Logger_io ::
  "os_env \<Rightarrow> string \<Rightarrow> string \<Rightarrow> bool \<Rightarrow> stack_info \<Rightarrow> frame \<Rightarrow> nvda \<Rightarrow> py_error + nvda" where
  "Logger_io env m cp activateLogViewer stack f s =
     (if \<not> isEnabledFor (rootLevel s) IO then Inr s
      else Logger_log env IO m None cp activateLogViewer stack f s)"

definition Logger_warning ::
  "os_env \<Rightarrow> string \<Rightarrow> string \<Rightarrow> bool \<Rightarrow> stack_info \<Rightarrow> frame \<Rightarrow> nvda \<Rightarrow> py_error + nvda" where
  "Logger_warning env m cp activateLogViewer stack f s =
     (if isEnabledFor (rootLevel s) WARNING
      then Logger_log env WARNING m None cp activateLogViewer stack f s
      else Inr s)"

text \<open>
  The \<^verbatim>\<open>exc_info\<close> argument of \<^verbatim>\<open>Logger.exception\<close>: \<^verbatim>\<open>True\<close> (take
  \<^verbatim>\<open>sys.exc_info()\<close>), a triple, of which the second component is read, or an
  exception.
\<close>

datatype exc_info = ExcTrue | ExcTuple "py_exception option" | ExcInstance py_exception

fun exc_of :: "nvda \<Rightarrow> exc_info \<Rightarrow> py_exception option" where
  "exc_of s ExcTrue = sys_exc s"
| "exc_of s (ExcTuple v) = v"
| "exc_of s (ExcInstance e) = Some e"

text \<open>\<^verbatim>\<open>Logger.exception\<close> (lines 282 to 332).\<close>

definition Logger_exception ::
  "os_env \<Rightarrow> rpc_constants \<Rightarrow> string \<Rightarrow> exc_info \<Rightarrow> string \<Rightarrow> bool \<Rightarrow> stack_info
     \<Rightarrow> frame \<Rightarrow> nvda \<Rightarrow> py_error + nvda" where
  "Logger_exception env rpc m ei cp activateLogViewer stack f s =
     (let exc = exc_of s ei;
          lvl = exceptionLevel rpc exc
      in if \<not> isEnabledFor (rootLevel s) lvl then Inr s
         else Logger_log env lvl m exc cp activateLogViewer stack f s)"

section \<open>Fragment tracker\<close>

definition noLogFile :: "nvda \<Rightarrow> bool" where
  "noLogFile s =
     (secure (appArgs s)
      \<or> (case logFileName (appArgs s) of None \<Rightarrow> True | Some n \<Rightarrow> n = [])
      \<or> logHandler s \<noteq> FileHandler)"

text \<open>
  \<^verbatim>\<open>open(globalVars.appArgs.logFileName, "r", encoding="UTF-8")\<close>: the bytes of the
  file, or the exception raised.
\<close>

definition openLogFile :: "nvda \<Rightarrow> py_error + string" where
  "openLogFile s =
     (case logFileName (appArgs s) of
        None \<Rightarrow> Inl TypeError
      | Some n \<Rightarrow>
          (case files s n of
             None \<Rightarrow> Inl FileNotFoundError
           | Some content \<Rightarrow> Inr content))"

text \<open>
  The file is opened in text mode. \<^verbatim>\<open>f.read()\<close> decodes the bytes from the current
  position to the end as UTF-8, and raises when they are not well-formed UTF-8
  (a lead byte with the continuation bytes it requires; no overlong form, no surrogate,
  nothing above U+10FFFF). With universal newlines, which is the default, it then
  replaces every CR LF and every other CR by LF.
\<close>

definition between :: "nat \<Rightarrow> char \<Rightarrow> nat \<Rightarrow> bool" where
  "between lo c hi = (lo \<le> of_char c \<and> (of_char c :: nat) \<le> hi)"

definition continuation :: "char \<Rightarrow> bool" where
  "continuation c = between 0x80 c 0xBF"

fun utf8_valid :: "string \<Rightarrow> bool" where
  "utf8_valid [] = True"
| "utf8_valid [b] = between 0x00 b 0x7F"
| "utf8_valid [b, c] =
     (if between 0x00 b 0x7F then utf8_valid [c]
      else between 0xC2 b 0xDF \<and> continuation c)"
| "utf8_valid [b, c, d] =
     (if between 0x00 b 0x7F then utf8_valid [c, d]
      else if between 0xC2 b 0xDF then continuation c \<and> utf8_valid [d]
      else (between 0xE0 b 0xE0 \<and> between 0xA0 c 0xBF
            \<or> between 0xE1 b 0xEC \<and> continuation c
            \<or> between 0xED b 0xED \<and> between 0x80 c 0x9F
            \<or> between 0xEE b 0xEF \<and> continuation c) \<and> continuation d)"
| "utf8_valid (b # c # d # e # rest) =
     (if between 0x00 b 0x7F then utf8_valid (c # d # e # rest)
      else if between 0xC2 b 0xDF then continuation c \<and> utf8_valid (d # e # rest)
      else if between 0xE0 b 0xEF
        then (between 0xE0 b 0xE0 \<and> between 0xA0 c 0xBF
              \<or> between 0xE1 b 0xEC \<and> continuation c
              \<or> between 0xED b 0xED \<and> between 0x80 c 0x9F
              \<or> between 0xEE b 0xEF \<and> continuation c) \<and> continuation d
             \<and> utf8_valid (e # rest)
      else (between 0xF0 b 0xF0 \<and> between 0x90 c 0xBF
            \<or> between 0xF1 b 0xF3 \<and> continuation c
            \<or> between 0xF4 b 0xF4 \<and> between 0x80 c 0x8F) \<and> continuation d \<and> continuation e
           \<and> utf8_valid rest)"

fun universalNewlines :: "string \<Rightarrow> string" where
  "universalNewlines [] = []"
| "universalNewlines [c] = (if c = CHR 0x0D then [CHR 0x0A] else [c])"
| "universalNewlines (c # d # rest) =
     (if c = CHR 0x0D
      then (if d = CHR 0x0A then CHR 0x0A # universalNewlines rest
            else CHR 0x0A # universalNewlines (d # rest))
      else c # universalNewlines (d # rest))"

text \<open>\<^verbatim>\<open>f.seek(start)\<close> followed by \<^verbatim>\<open>f.read()\<close> on a file with the given bytes.\<close>

definition readTextFrom :: "nat \<Rightarrow> string \<Rightarrow> py_error + string" where
  "readTextFrom start content =
     (if utf8_valid (drop start content) then Inr (universalNewlines (drop start content))
      else Inl UnicodeDecodeError)"

text \<open>
  \<^verbatim>\<open>Logger.markFragmentStart\<close>: \<^verbatim>\<open>f.seek(0, 2)\<close> followed by \<^verbatim>\<open>f.tell()\<close>
  gives the length of the file in bytes; nothing is decoded.
\<close>

definition Logger_markFragmentStart :: "nvda \<Rightarrow> py_error + (bool \<times> nvda)" where
  "Logger_markFragmentStart s =
     (if noLogFile s then Inr (False, s)
      else
        (case openLogFile s of
           Inl e \<Rightarrow> Inl e
         | Inr content \<Rightarrow> Inr (True, s\<lparr> fragmentStart := Some (length content) \<rparr>)))"

text \<open>
  \<^verbatim>\<open>Logger.getFragment\<close>: the result is \<^verbatim>\<open>None\<close> or the text read; reading from a
  position at or after the end of the file gives the empty string. An exception leaves
  the mark as it is.
\<close>

definition Logger_getFragment :: "nvda \<Rightarrow> py_error + (string option \<times> nvda)" where
  "Logger_getFragment s =
     (case fragmentStart s of
        None \<Rightarrow> Inr (None, s)
      | Some start \<Rightarrow>
          if noLogFile s then Inr (None, s)
          else
            (case openLogFile s of
               Inl e \<Rightarrow> Inl e
             | Inr content \<Rightarrow>
                 (case readTextFrom start content of
                    Inl e \<Rightarrow> Inl e
                  | Inr fragment \<Rightarrow>
                      Inr (Some fragment,
                           (if fragment \<noteq> [] then s\<lparr> fragmentStart := None \<rparr> else s)))))"

text \<open>Another writer appends bytes to a file.\<close>

definition appendToFile :: "string \<Rightarrow> string \<Rightarrow> nvda \<Rightarrow> nvda" where
  "appendToFile name added s =
     s\<lparr> files := (files s)(name \<mapsto> (case files s name of None \<Rightarrow> [] | Some c \<Rightarrow> c) @ added) \<rparr>"

section \<open>File handler\<close>

text \<open>
  \<^verbatim>\<open>shouldPlayErrorSound\<close>: \<^verbatim>\<open>buildVersion.isTestVersion\<close>, and
  \<^verbatim>\<open>config.conf\<close>, which is \<^verbatim>\<open>None\<close> or holds the value of
  \<^verbatim>\<open>["featureFlag"]["playErrorSound"]\<close>.
\<close>

definition shouldPlayErrorSound :: "bool \<Rightarrow> int option \<Rightarrow> bool" where
  "shouldPlayErrorSound isTestVersion conf =
     (isTestVersion \<or> (case conf of None \<Rightarrow> False | Some playErrorSound \<Rightarrow> playErrorSound = 1))"

text \<open>
  What \<^verbatim>\<open>FileHandler.handle\<close> does with a record, in order:
  \<^verbatim>\<open>winsound.MessageBeep\<close>, \<^verbatim>\<open>getOnErrorSoundRequested().notify()\<close>, and the
  inherited \<^verbatim>\<open>handle\<close>, which filters and writes the record.
\<close>

datatype sink_event = MessageBeep | ErrorSoundNotify | SuperHandle log_record

definition FileHandler_handle :: "bool \<Rightarrow> int option \<Rightarrow> log_record \<Rightarrow> sink_event list" where
  "FileHandler_handle isTestVersion conf r =
     (if CRITICAL \<le> rec_levelno r then [MessageBeep]
      else if ERROR \<le> rec_levelno r \<and> shouldPlayErrorSound isTestVersion conf
           then [ErrorSoundNotify]
           else [])
     @ [SuperHandle r]"

text \<open>
  The rule of the specification for the audible-alert subsystem: it is notified for a
  record at ERROR or above when the error sound is enabled.
\<close>

definition spec_notified :: "bool \<Rightarrow> int option \<Rightarrow> log_record \<Rightarrow> bool" where
  "spec_notified isTestVersion conf r =
     (ERROR \<le> rec_levelno r \<and> shouldPlayErrorSound isTestVersion conf)"

section \<open>Failure hooks\<close>

text \<open>
  The argument of \<^verbatim>\<open>_threadExceptHook\<close>: the class of the exception, compared with
  \<^verbatim>\<open>is SystemExit\<close>; the exception or \<^verbatim>\<open>None\<close>; and the name of the thread, when
  there is a thread.
\<close>

datatype exc_class = SystemExitClass | ExceptionClass string

record thread_except_args =
  exc_type :: exc_class
  exc_value :: "py_exception option"
  thread_name :: "string option"

text \<open>
  \<^verbatim>\<open>_threadExceptHook\<close> (lines 497 to 504). \<open>f\<close> is the frame of the hook itself,
  which \<^verbatim>\<open>Logger._log\<close> finds two frames up when no codepath is given.
\<close>

definition threadExceptHook ::
  "os_env \<Rightarrow> rpc_constants \<Rightarrow> frame \<Rightarrow> thread_except_args \<Rightarrow> nvda \<Rightarrow> py_error + nvda" where
  "threadExceptHook env rpc f excInfoObj s =
     (if exc_type excInfoObj = SystemExitClass then Inr s
      else
        (let m = (case thread_name excInfoObj of
                    None \<Rightarrow> []
                  | Some n \<Rightarrow> ''Exception in thread '' @ n @ '':'' @ [CHR 0x0A])
         in Logger_exception env rpc m (ExcTuple (exc_value excInfoObj)) [] False NoStackInfo f s))"

section \<open>Level policy\<close>

definition isLogLevelForced :: "app_args \<Rightarrow> bool" where
  "isLogLevelForced a = (secure a \<or> debugLogging a \<or> logLevel a \<noteq> 0 \<or> noLogging a)"

text \<open>
  \<^verbatim>\<open>logging.getLevelName\<close> of the standard library, on the tables as
  \<^verbatim>\<open>initialize\<close> leaves them (lines 567 to 569 add the three levels of the module).
  Given a level it returns its name, given a name its level, and otherwise the string
  \<^verbatim>\<open>"Level %s" % level\<close>.
\<close>

datatype level_or_name = LevelNo int | LevelName string

definition levelToName :: "int \<rightharpoonup> string" where
  "levelToName = map_of [(CRITICAL, ''CRITICAL''), (ERROR, ''ERROR''), (WARNING, ''WARNING''),
     (INFO, ''INFO''), (DEBUG, ''DEBUG''), (0, ''NOTSET''),
     (DEBUGWARNING, ''DEBUGWARNING''), (IO, ''IO''), (OFF, ''OFF'')]"

definition nameToLevel :: "string \<rightharpoonup> int" where
  "nameToLevel = map_of [(''CRITICAL'', CRITICAL), (''FATAL'', CRITICAL), (''ERROR'', ERROR),
     (''WARN'', WARNING), (''WARNING'', WARNING), (''INFO'', INFO), (''DEBUG'', DEBUG),
     (''NOTSET'', 0), (''DEBUGWARNING'', DEBUGWARNING), (''IO'', IO), (''OFF'', OFF)]"

fun showNat :: "nat \<Rightarrow> string" where
  "showNat n = (if n < 10 then [char_of (48 + n)] else showNat (n div 10) @ [char_of (48 + n mod 10)])"

definition showInt :: "int \<Rightarrow> string" where
  "showInt i = (if i < 0 then ''-'' @ showNat (nat (- i)) else showNat (nat i))"

fun getLevelName :: "level_or_name \<Rightarrow> level_or_name" where
  "getLevelName (LevelNo n) =
     (case levelToName n of
        Some name \<Rightarrow> LevelName name
      | None \<Rightarrow> LevelName (''Level '' @ showInt n))"
| "getLevelName (LevelName name) =
     (case nameToLevel name of
        Some n \<Rightarrow> LevelNo n
      | None \<Rightarrow> LevelName (''Level '' @ name))"

text \<open>
  \<^verbatim>\<open>setLogLevelFromConfig\<close> (lines 635 to 650). \<open>f\<close> is the frame of the function
  itself, which \<^verbatim>\<open>log.warning\<close> reports as the codepath.
\<close>

definition setLogLevelFromConfig :: "os_env \<Rightarrow> frame \<Rightarrow> nvda \<Rightarrow> py_error + nvda" where
  "setLogLevelFromConfig env f s =
     (if isLogLevelForced (appArgs s) then Inr s
      else
        (let levelName = loggingLevel s;
             lvl = getLevelName (LevelName levelName)
         in if lvl \<notin> set (map LevelNo [DEBUG, IO, DEBUGWARNING, INFO, OFF])
            then
              (case Logger_warning env (''invalid setting for logging level: '' @ levelName)
                      [] False NoStackInfo f s of
                 Inl e \<Rightarrow> Inl e
               | Inr s1 \<Rightarrow>
                   (case getLevelName (LevelNo INFO) of
                      LevelName infoName \<Rightarrow>
                        Inr (s1\<lparr> loggingLevel := infoName, rootLevel := INFO \<rparr>)
                    | LevelNo n \<Rightarrow> Inr (s1\<lparr> rootLevel := INFO \<rparr>)))
            else (case lvl of
                    LevelNo n \<Rightarrow> Inr (s\<lparr> rootLevel := n \<rparr>)
                  | LevelName other \<Rightarrow> Inr s)))"

section \<open>Example inputs\<close>

text \<open>
  Concrete inputs on which the definitions above are evaluated: an environment of a
  bundled build (code files have relative names), a state as \<^verbatim>\<open>initialize\<close> leaves it
  when no option is given on the command line, and frames of module-level code, of a
  method inherited from a base class, of the setter and the deleter of a property, of
  a class method called on the class, of a function that is no method, of a lambda, and
  of two functions of the module.
\<close>

definition exampleEnv :: os_env where
  "exampleEnv = \<lparr> isabs = (\<lambda>p. case p of d # c # r \<Rightarrow> c = CHR '':'' | _ \<Rightarrow> False),
     normpath = (\<lambda>p. p), NVDA_CODE_PATH = ''C:/nvda'', configDir = Some ''C:/Users/u/nvda'',
     stripBasePathFromTracebackText = (\<lambda>txt. txt) \<rparr>"

definition exampleState :: nvda where
  "exampleState = \<lparr> appArgs = \<lparr> secure = False, debugLogging = False, noLogging = False,
       logLevel = 0, logFileName = Some ''nvda.log'' \<rparr>,
     rootLevel = INFO, logHandler = FileHandler, fragmentStart = None,
     files = [''nvda.log'' \<mapsto> ''INFO - core''], loggingLevel = ''INFO'', sys_exc = None,
     emitted = [], viewerCalls = [] \<rparr>"

definition moduleFrame :: frame where
  "moduleFrame = \<lparr> co_filename = ''speech.py'', f_globals_name = Some ''speech'',
     co_name = ''<module>'', co_argcount = 0, co_varnames = [], f_locals = Map.empty,
     f_code = 1, f_stack = [] \<rparr>"

definition baseClass :: py_class where
  "baseClass = \<lparr> cls_name = ''Base'',
     cls_dict = [''speak'' \<mapsto> FunctionMember 7,
       ''rate'' \<mapsto> PropertyMember (Some 8) (Some 9) (Some 16),
       ''create'' \<mapsto> ClassMethodMember (Some 17)] \<rparr>"

definition derivedClass :: py_class where
  "derivedClass = \<lparr> cls_name = ''Derived'', cls_dict = [''cancel'' \<mapsto> FunctionMember 10] \<rparr>"

definition objectClass :: py_class where
  "objectClass = \<lparr> cls_name = ''object'', cls_dict = Map.empty \<rparr>"

definition methodFrame :: frame where
  "methodFrame = \<lparr> co_filename = ''speech.py'', f_globals_name = Some ''speech'',
     co_name = ''speak'', co_argcount = 1, co_varnames = [''self''],
     f_locals = [''self'' \<mapsto> Instance [derivedClass, baseClass, objectClass]],
     f_code = 7, f_stack = [] \<rparr>"

definition setterFrame :: frame where
  "setterFrame = \<lparr> co_filename = ''speech.py'', f_globals_name = Some ''speech'',
     co_name = ''rate'', co_argcount = 2, co_varnames = [''self'', ''value''],
     f_locals = [''self'' \<mapsto> Instance [derivedClass, baseClass, objectClass],
       ''value'' \<mapsto> Instance [objectClass]],
     f_code = 9, f_stack = [] \<rparr>"

definition deleterFrame :: frame where
  "deleterFrame = \<lparr> co_filename = ''speech.py'', f_globals_name = Some ''speech'',
     co_name = ''rate'', co_argcount = 1, co_varnames = [''self''],
     f_locals = [''self'' \<mapsto> Instance [derivedClass, baseClass, objectClass]],
     f_code = 16, f_stack = [] \<rparr>"

definition classMethodFrame :: frame where
  "classMethodFrame = \<lparr> co_filename = ''speech.py'', f_globals_name = Some ''speech'',
     co_name = ''create'', co_argcount = 1, co_varnames = [''cls''],
     f_locals = [''cls'' \<mapsto> TypeObject [derivedClass, baseClass, objectClass]],
     f_code = 17, f_stack = [] \<rparr>"

definition freeFunctionFrame :: frame where
  "freeFunctionFrame = \<lparr> co_filename = ''speech.py'', f_globals_name = Some ''speech'',
     co_name = ''speak'', co_argcount = 1, co_varnames = [''obj''],
     f_locals = [''obj'' \<mapsto> Instance [derivedClass, baseClass, objectClass]],
     f_code = 11, f_stack = [] \<rparr>"

definition lambdaFrame :: frame where
  "lambdaFrame = \<lparr> co_filename = ''speech.py'', f_globals_name = Some ''speech'',
     co_name = ''<lambda>'', co_argcount = 1, co_varnames = [''self''],
     f_locals = [''self'' \<mapsto> Instance [derivedClass, baseClass, objectClass]],
     f_code = 12, f_stack = [] \<rparr>"

definition hookFrame :: frame where
  "hookFrame = \<lparr> co_filename = ''logHandler.py'', f_globals_name = Some ''logHandler'',
     co_name = ''_threadExceptHook'', co_argcount = 1, co_varnames = [''excInfoObj''],
     f_locals = [''excInfoObj'' \<mapsto> Instance [\<lparr> cls_name = ''ExceptHookArgs'',
       cls_dict = Map.empty \<rparr>, objectClass]],
     f_code = 13, f_stack = [] \<rparr>"

definition configFrame :: frame where
  "configFrame = \<lparr> co_filename = ''logHandler.py'', f_globals_name = Some ''logHandler'',
     co_name = ''setLogLevelFromConfig'', co_argcount = 0, co_varnames = [],
     f_locals = Map.empty, f_code = 14, f_stack = [] \<rparr>"

definition secureState :: nvda where
  "secureState = exampleState\<lparr> appArgs := (appArgs exampleState)\<lparr> secure := True \<rparr>,
     rootLevel := DEBUG, fragmentStart := Some 4 \<rparr>"

definition debugLoggingState :: nvda where
  "debugLoggingState = exampleState\<lparr> appArgs := (appArgs exampleState)\<lparr> debugLogging := True \<rparr>,
     rootLevel := DEBUG, loggingLevel := ''OFF'' \<rparr>"

definition criticalRecord :: log_record where
  "criticalRecord = \<lparr> rec_levelno = CRITICAL, rec_msg = ''core failure'', rec_exc = None,
     rec_codepath = ''core.main'' \<rparr>"

definition addonFrame :: frame where
  "addonFrame = \<lparr> co_filename = ''C:/Users/u/nvda/addons/clock/globalPlugins/clock.py'',
     f_globals_name = Some ''globalPlugins.clock'', co_name = ''<module>'', co_argcount = 0,
     co_varnames = [], f_locals = Map.empty, f_code = 15, f_stack = [] \<rparr>"

definition cancelledInThread :: thread_except_args where
  "cancelledInThread = \<lparr> exc_type = ExceptionClass ''CallCancelled'',
     exc_value = Some CallCancelled, thread_name = Some ''Thread-1'' \<rparr>"

section \<open>Facts about the definitions\<close>

lemmas level_defs =
  DEBUG_def INFO_def WARNING_def WARN_def ERROR_def CRITICAL_def IO_def DEBUGWARNING_def OFF_def

lemmas code_defs =
  ERROR_INVALID_WINDOW_HANDLE_def ERROR_TIMEOUT_def EPT_S_NOT_REGISTERED_def
  E_ACCESSDENIED_def CO_E_OBJNOTCONNECTED_def EVENT_E_ALL_SUBSCRIBERS_FAILED_def

lemma isExpectedException_iff:
  "isExpectedException rpc exc \<longleftrightarrow>
     (\<exists>code. exc = Some (WindowsError (Some code))
        \<and> code \<in> {ERROR_INVALID_WINDOW_HANDLE, ERROR_TIMEOUT, S_SERVER_UNAVAILABLE rpc,
                   S_CALL_FAILED_DNE rpc, EPT_S_NOT_REGISTERED, E_CALL_CANCELED rpc})
     \<or> (\<exists>hresult. exc = Some (COMError hresult)
          \<and> (hresult \<in> {E_ACCESSDENIED, CO_E_OBJNOTCONNECTED, EVENT_E_ALL_SUBSCRIBERS_FAILED,
                         E_CALL_REJECTED rpc, E_CALL_CANCELED rpc, E_DISCONNECTED rpc}
             \<or> hresult AND 0xFFFF = S_SERVER_UNAVAILABLE rpc))
     \<or> exc = Some CallCancelled"
proof (cases exc)
  case None
  then show ?thesis by simp
next
  case (Some e)
  then show ?thesis
    by (cases e) (auto split: option.splits)
qed

lemma Logger_log_emitted:
  assumes "Logger_log env lvl m exc cp activateLogViewer stack f s = Inr s'"
  shows "\<exists>r. emitted s' = emitted s @ [r] \<and> rec_levelno r = lvl \<and> rec_exc r = exc"
  using assms
  by (auto simp: Logger_log_def super_log_def Let_def split: sum.splits if_splits)

lemma getCodePath_moduleFrame: "getCodePath exampleEnv moduleFrame = Inr ''speech''"
  by (simp add: getCodePath_def modulePath_def isPathExternalToNVDA_def resolveClassName_def
      exampleEnv_def moduleFrame_def)

lemma Logger_log_secure:
  assumes "secure (appArgs s)"
  shows "Logger_log env lvl m exc cp activateLogViewer stack f s
         = Logger_log env lvl m exc cp False stack f s"
  using assms by (simp add: Logger_log_def)

lemma Logger_log_no_activation:
  assumes "Logger_log env lvl m exc cp False stack f s = Inr s'"
  shows "viewerCalls s' = viewerCalls s"
  using assms
  by (auto simp: Logger_log_def super_log_def Let_def split: sum.splits if_splits)

lemma universalNewlines_Nil: "universalNewlines xs = [] \<longleftrightarrow> xs = []"
  by (induction xs rule: universalNewlines.induct) auto

lemma universalNewlines_no_CR: "CHR 0x0D \<notin> set xs \<Longrightarrow> universalNewlines xs = xs"
  by (induction xs rule: universalNewlines.induct) auto

lemma openLogFile_append:
  assumes "logFileName (appArgs s) = Some fn" "files s fn = Some content"
  shows "openLogFile (appendToFile fn added s) = Inr (content @ added)"
  using assms by (simp add: openLogFile_def appendToFile_def)

lemma noLogFile_append: "noLogFile (appendToFile fn added s) = noLogFile s"
  by (simp add: noLogFile_def appendToFile_def)

lemma mroLoop_find:
  "mroLoop code attr mro =
     (case find (definesMethod code attr) mro of None \<Rightarrow> [] | Some cls \<Rightarrow> cls_name cls)"
proof (induction mro)
  case Nil
  then show ?case by simp
next
  case (Cons cls rest)
  show ?case
  proof (cases "cls_dict cls attr")
    case None
    with Cons show ?thesis by (simp add: definesMethod_def)
  next
    case (Some member)
    with Cons show ?thesis
      by (cases member) (simp_all add: definesMethod_def Let_def)
  qed
qed

lemma mroLoop_no_attribute:
  "\<not> hasattr mro attr \<Longrightarrow> mroLoop code attr mro = []"
  by (induction mro) (auto simp: hasattr_def)

lemma resolveClassName_bound:
  assumes "co_argcount f \<noteq> 0" "co_varnames f = v # vs" "f_locals f v = Some arg0"
  shows "resolveClassName f attr = Inr (mroLoop (f_code f) attr (topCls_mro arg0))"
  using assms by (auto simp: resolveClassName_def Let_def mroLoop_no_attribute)

lemma getCodePath_segments:
  assumes "modulePath env f = Inr path"
    and "resolveClassName f (if prefix ''<'' (co_name f) then [] else co_name f) = Inr className"
  shows "getCodePath env f = Inr (joinDot (filter (\<lambda>x. x \<noteq> [])
           [path, className, if prefix ''<'' (co_name f) then [] else co_name f]))"
  using assms by (simp add: getCodePath_def Let_def)

lemma resolveClassName_receiver:
  assumes "co_argcount f \<noteq> 0" "co_varnames f = v # vs"
    and "f_locals f v = Some (Instance mro) \<or> f_locals f v = Some (TypeObject mro)"
  shows "resolveClassName f attr = Inr (mroLoop (f_code f) attr mro)"
  using assms by (auto simp: resolveClassName_bound)

lemma modulePath_examples:
  "modulePath exampleEnv methodFrame = Inr ''speech''"
  "modulePath exampleEnv freeFunctionFrame = Inr ''speech''"
  "modulePath exampleEnv lambdaFrame = Inr ''speech''"
  "modulePath exampleEnv moduleFrame = Inr ''speech''"
  "modulePath exampleEnv configFrame = Inr ''logHandler''"
  "modulePath exampleEnv hookFrame = Inr ''logHandler''"
  "modulePath exampleEnv addonFrame = Inr ''external:globalPlugins.clock''"
  "modulePath exampleEnv setterFrame = Inr ''speech''"
  "modulePath exampleEnv deleterFrame = Inr ''speech''"
  "modulePath exampleEnv classMethodFrame = Inr ''speech''"
  by (simp_all add: modulePath_def isPathExternalToNVDA_def exampleEnv_def methodFrame_def
      freeFunctionFrame_def lambdaFrame_def moduleFrame_def configFrame_def hookFrame_def addonFrame_def
      setterFrame_def deleterFrame_def classMethodFrame_def)

lemma getCodePath_hookFrame:
  "getCodePath exampleEnv hookFrame = Inr ''logHandler._threadExceptHook''"
  by (simp add: getCodePath_def modulePath_def isPathExternalToNVDA_def resolveClassName_def
      hasattr_def exampleEnv_def hookFrame_def objectClass_def)

lemma getCodePath_configFrame:
  "getCodePath exampleEnv configFrame = Inr ''logHandler.setLogLevelFromConfig''"
  by (simp add: getCodePath_def modulePath_def isPathExternalToNVDA_def resolveClassName_def
      exampleEnv_def configFrame_def)

lemma getCodePath_no_arguments:
  assumes "co_filename f \<noteq> []" "co_argcount f = 0"
  shows "\<exists>cp. getCodePath env f = Inr cp"
  using assms
  by (simp add: getCodePath_def modulePath_def isPathExternalToNVDA_def resolveClassName_def
      Let_def)

lemma getLevelName_not_allowed:
  assumes "name \<notin> {''IO'', ''DEBUG'', ''DEBUGWARNING'', ''INFO'', ''OFF''}"
  shows "getLevelName (LevelName name) \<notin> set (map LevelNo [DEBUG, IO, DEBUGWARNING, INFO, OFF])"
proof (cases "nameToLevel name")
  case None
  then show ?thesis by simp
next
  case (Some n)
  with assms have "n \<notin> {DEBUG, IO, DEBUGWARNING, INFO, OFF}"
    by (auto simp: nameToLevel_def level_defs split: if_splits)
  with Some show ?thesis by auto
qed

lemma getLevelName_INFO: "getLevelName (LevelNo INFO) = LevelName ''INFO''"
  by (simp add: levelToName_def level_defs)

lemma Logger_warning_emitted:
  assumes "getCodePath env f = Inr cp"
  shows "Logger_warning env m [] False NoStackInfo f s
    = Inr (s\<lparr> emitted := emitted s @
        (if rootLevel s \<le> WARNING
         then [\<lparr> rec_levelno = WARNING, rec_msg = m, rec_exc = None, rec_codepath = cp \<rparr>]
         else []) \<rparr>)"
  using assms
  by (simp add: Logger_warning_def Logger_log_def super_log_def isEnabledFor_def level_defs)

section \<open>Severity model\<close>

text \<open>
  Claim C2, as the specification states it: the levels are ordered
  IO < DEBUG < DEBUGWARNING < INFO < WARNING < ERROR < CRITICAL < OFF. The source gives
  IO the value 12 and takes DEBUG, which is 10, from the standard library, so the
  list in the order of the specification is not increasing: DEBUG is below IO.
\<close>

theorem level_order_counterexample:
  "\<not> sorted_wrt (<) spec_levelOrder \<and> DEBUG < IO"
  by (simp add: spec_levelOrder_def level_defs)

text \<open>
  Claim C2, amended: the levels are ordered
  DEBUG < IO < DEBUGWARNING < INFO < WARNING < ERROR < CRITICAL < OFF, and OFF lies
  above every other level: with the threshold at OFF no level below OFF is enabled,
  in particular none of the seven other named levels.
\<close>

theorem level_order:
  "DEBUG < IO \<and> IO < DEBUGWARNING \<and> DEBUGWARNING < INFO \<and> INFO < WARNING
   \<and> WARNING < ERROR \<and> ERROR < CRITICAL \<and> CRITICAL < OFF
   \<and> sorted_wrt (<) namedLevels
   \<and> (\<forall>lvl. lvl < OFF \<longrightarrow> \<not> isEnabledFor OFF lvl)
   \<and> (\<forall>lvl \<in> set namedLevels. lvl \<noteq> OFF \<longrightarrow> \<not> isEnabledFor OFF lvl)"
  by (simp add: namedLevels_def isEnabledFor_def level_defs)

theorem level_order_witness:
  "CRITICAL < OFF \<and> \<not> isEnabledFor OFF CRITICAL \<and> CRITICAL \<in> set namedLevels"
  using level_order by (simp add: namedLevels_def level_defs)

section \<open>Exception classifier: theorems\<close>

text \<open>
  Claim C1, as the specification states it: a platform error is downgraded exactly
  when its code is one of the five enumerated ones. The allow-list of the source has
  a sixth code, \<^verbatim>\<open>RPCConstants.RPC.S_CALL_FAILED_DNE\<close>: a \<^verbatim>\<open>WindowsError\<close> with that
  code (1727 on Windows) is logged at DEBUGWARNING, and the enumeration of the
  specification does not hold it.
\<close>

theorem exception_level_counterexample:
  "exceptionLevel windowsRPC (Some (WindowsError (Some 1727))) = DEBUGWARNING
   \<and> \<not> spec_isExpectedException windowsRPC (Some (WindowsError (Some 1727)))"
  by (simp add: exceptionLevel_def windowsRPC_def code_defs)

text \<open>
  Claim C1, amended: the level chosen by \<^verbatim>\<open>Logger.exception\<close> is DEBUGWARNING exactly
  when the exception is a platform error whose code is invalid window handle,
  operation timeout, RPC server unavailable, RPC call failed and did not execute, RPC
  endpoint not registered or RPC call cancelled; or a COM error whose result is in
  the second allow-list or whose low 16 bits equal the RPC-server-unavailable code; or
  the cancellation exception. In every other case the level is ERROR, in particular
  for an exception of any other class; and a record that \<^verbatim>\<open>Logger.exception\<close> hands
  on has that level.
\<close>

theorem exception_level_classified:
  "(exceptionLevel rpc exc = DEBUGWARNING \<longleftrightarrow>
      (\<exists>code. exc = Some (WindowsError (Some code))
         \<and> code \<in> {ERROR_INVALID_WINDOW_HANDLE, ERROR_TIMEOUT, S_SERVER_UNAVAILABLE rpc,
                    S_CALL_FAILED_DNE rpc, EPT_S_NOT_REGISTERED, E_CALL_CANCELED rpc})
      \<or> (\<exists>hresult. exc = Some (COMError hresult)
           \<and> (hresult \<in> {E_ACCESSDENIED, CO_E_OBJNOTCONNECTED, EVENT_E_ALL_SUBSCRIBERS_FAILED,
                          E_CALL_REJECTED rpc, E_CALL_CANCELED rpc, E_DISCONNECTED rpc}
              \<or> hresult AND 0xFFFF = S_SERVER_UNAVAILABLE rpc))
      \<or> exc = Some CallCancelled)
   \<and> (exceptionLevel rpc exc \<noteq> DEBUGWARNING \<longrightarrow> exceptionLevel rpc exc = ERROR)
   \<and> exceptionLevel rpc (Some (OtherException cls)) = ERROR
   \<and> (\<forall>s'. Logger_exception env rpc m ei cp activateLogViewer stack f s = Inr s'
          \<longrightarrow> emitted s' = emitted s
              \<or> (\<exists>r. emitted s' = emitted s @ [r]
                    \<and> rec_levelno r = exceptionLevel rpc (exc_of s ei)))"
proof (intro conjI allI impI)
  have "exceptionLevel rpc exc = DEBUGWARNING \<longleftrightarrow> isExpectedException rpc exc"
    by (simp add: exceptionLevel_def level_defs)
  then show "exceptionLevel rpc exc = DEBUGWARNING \<longleftrightarrow>
      (\<exists>code. exc = Some (WindowsError (Some code))
         \<and> code \<in> {ERROR_INVALID_WINDOW_HANDLE, ERROR_TIMEOUT, S_SERVER_UNAVAILABLE rpc,
                    S_CALL_FAILED_DNE rpc, EPT_S_NOT_REGISTERED, E_CALL_CANCELED rpc})
      \<or> (\<exists>hresult. exc = Some (COMError hresult)
           \<and> (hresult \<in> {E_ACCESSDENIED, CO_E_OBJNOTCONNECTED, EVENT_E_ALL_SUBSCRIBERS_FAILED,
                          E_CALL_REJECTED rpc, E_CALL_CANCELED rpc, E_DISCONNECTED rpc}
              \<or> hresult AND 0xFFFF = S_SERVER_UNAVAILABLE rpc))
      \<or> exc = Some CallCancelled"
    by (simp only: isExpectedException_iff)
next
  assume "exceptionLevel rpc exc \<noteq> DEBUGWARNING"
  then show "exceptionLevel rpc exc = ERROR"
    by (simp add: exceptionLevel_def split: if_splits)
next
  show "exceptionLevel rpc (Some (OtherException cls)) = ERROR"
    by (simp add: exceptionLevel_def)
next
  fix s'
  assume res: "Logger_exception env rpc m ei cp activateLogViewer stack f s = Inr s'"
  show "emitted s' = emitted s
      \<or> (\<exists>r. emitted s' = emitted s @ [r] \<and> rec_levelno r = exceptionLevel rpc (exc_of s ei))"
  proof (cases "isEnabledFor (rootLevel s) (exceptionLevel rpc (exc_of s ei))")
    case False
    with res show ?thesis by (simp add: Logger_exception_def Let_def)
  next
    case True
    with res have "Logger_log env (exceptionLevel rpc (exc_of s ei)) m (exc_of s ei) cp
        activateLogViewer stack f s = Inr s'"
      by (simp add: Logger_exception_def Let_def)
    from Logger_log_emitted [OF this] show ?thesis by blast
  qed
qed

theorem exception_level_classified_witness:
  "exceptionLevel windowsRPC (Some (COMError (- 2147023174))) = DEBUGWARNING
   \<and> exceptionLevel windowsRPC (Some (WindowsError (Some 5))) = ERROR
   \<and> (\<exists>r. emitted (projr (Logger_exception exampleEnv windowsRPC ''failed''
                 (ExcInstance (OtherException ''MyError'')) [] False NoStackInfo moduleFrame
                 exampleState)) = [r] \<and> rec_levelno r = ERROR)"
proof -
  have r: "Logger_exception exampleEnv windowsRPC ''failed''
      (ExcInstance (OtherException ''MyError'')) [] False NoStackInfo moduleFrame exampleState
    = Inr (exampleState\<lparr> emitted := [\<lparr> rec_levelno = ERROR, rec_msg = ''failed'',
        rec_exc = Some (OtherException ''MyError''), rec_codepath = ''speech'' \<rparr>] \<rparr>)"
    by (simp add: Logger_exception_def Logger_log_def super_log_def exceptionLevel_def
        isEnabledFor_def getCodePath_moduleFrame exampleState_def level_defs)
  have 1: "exceptionLevel windowsRPC (Some (COMError (- 2147023174))) = DEBUGWARNING"
    using exception_level_classified [of windowsRPC "Some (COMError (- 2147023174))"]
    by (simp add: windowsRPC_def)
  have 2: "exceptionLevel windowsRPC (Some (WindowsError (Some 5))) = ERROR"
    using exception_level_classified [of windowsRPC "Some (WindowsError (Some 5))"]
    by (simp add: windowsRPC_def code_defs)
  show ?thesis using 1 2 r by simp
qed

section \<open>Level policy: the forced state\<close>

text \<open>
  Claim C3: when a forced condition holds (secure mode, the debug-logging flag, a
  level override other than 0, or logging disabled by flag), \<^verbatim>\<open>setLogLevelFromConfig\<close>
  returns without changing the threshold or any other part of the state.
\<close>

theorem forced_level_ignores_config:
  assumes "secure (appArgs s) \<or> debugLogging (appArgs s) \<or> logLevel (appArgs s) \<noteq> 0
     \<or> noLogging (appArgs s)"
  shows "setLogLevelFromConfig env f s = Inr s"
  using assms by (simp add: setLogLevelFromConfig_def isLogLevelForced_def)

theorem forced_level_ignores_config_witness:
  "debugLogging (appArgs debugLoggingState) \<and> loggingLevel debugLoggingState = ''OFF''
   \<and> setLogLevelFromConfig exampleEnv configFrame debugLoggingState = Inr debugLoggingState"
  using forced_level_ignores_config [of debugLoggingState exampleEnv configFrame]
  by (simp add: debugLoggingState_def exampleState_def)

section \<open>Fragment tracker: theorems\<close>

lemma readTextFrom_appended:
  "readTextFrom (length content) (content @ added)
     = (if utf8_valid added then Inr (universalNewlines added) else Inl UnicodeDecodeError)"
  by (simp add: readTextFrom_def)

text \<open>
  Claim C4, as the specification states it: after a mark at the end of the file,
  \<^verbatim>\<open>getFragment\<close> returns exactly what was appended. The source reads the file in
  text mode, so that a line end written as CR LF is returned as LF: after the
  bytes \<open>ERR\<close>, CR, LF are appended, the fragment is \<open>ERR\<close>, LF.
\<close>

theorem fragment_round_trip_counterexample:
  "Logger_markFragmentStart exampleState
     = Inr (True, exampleState\<lparr> fragmentStart := Some (length ''INFO - core'') \<rparr>)
   \<and> fst (projr (Logger_getFragment (appendToFile ''nvda.log'' (''ERR'' @ [CHR 0x0D, CHR 0x0A])
        (exampleState\<lparr> fragmentStart := Some (length ''INFO - core'') \<rparr>))))
       = Some (''ERR'' @ [CHR 0x0A])
   \<and> ''ERR'' @ [CHR 0x0A] \<noteq> ''ERR'' @ [CHR 0x0D, CHR 0x0A]"
  by (simp add: Logger_markFragmentStart_def Logger_getFragment_def openLogFile_def
      noLogFile_def appendToFile_def readTextFrom_def between_def exampleState_def)

text \<open>
  Claim C4, amended: let \<^verbatim>\<open>markFragmentStart\<close> succeed on a log file of P bytes. It
  returns \<^verbatim>\<open>True\<close> and stores P. If bytes that are well-formed UTF-8 are then
  appended, \<^verbatim>\<open>getFragment\<close> returns them as a read in text mode gives them, with
  every CR LF and every other CR replaced by LF, which is exactly the appended text when
  it holds no CR, and clears the mark. If the appended bytes are not well-formed
  UTF-8, \<^verbatim>\<open>getFragment\<close> raises. If nothing was appended, \<^verbatim>\<open>getFragment\<close> returns
  the empty text and leaves the mark at P, so that a call after a later append
  returns what was appended after P.
\<close>

theorem fragment_round_trip:
  assumes "\<not> noLogFile s" "logFileName (appArgs s) = Some fn" "files s fn = Some content"
  defines "marked \<equiv> s\<lparr> fragmentStart := Some (length content) \<rparr>"
  shows "Logger_markFragmentStart s = Inr (True, marked)
    \<and> (utf8_valid added \<and> added \<noteq> [] \<longrightarrow>
         Logger_getFragment (appendToFile fn added marked)
           = Inr (Some (universalNewlines added),
                  (appendToFile fn added marked)\<lparr> fragmentStart := None \<rparr>))
    \<and> (CHR 0x0D \<notin> set added \<longrightarrow> universalNewlines added = added)
    \<and> (\<not> utf8_valid added \<longrightarrow>
         Logger_getFragment (appendToFile fn added marked) = Inl UnicodeDecodeError)
    \<and> Logger_getFragment marked = Inr (Some [], marked)
    \<and> Logger_getFragment (appendToFile fn [] marked) = Inr (Some [], appendToFile fn [] marked)
    \<and> (utf8_valid added \<and> added \<noteq> [] \<longrightarrow>
         Logger_getFragment (appendToFile fn added (snd (projr (Logger_getFragment marked))))
           = Inr (Some (universalNewlines added),
                  (appendToFile fn added marked)\<lparr> fragmentStart := None \<rparr>))"
proof -
  have m: "\<not> noLogFile marked" "logFileName (appArgs marked) = Some fn"
      "files marked fn = Some content" "fragmentStart marked = Some (length content)"
    using assms by (simp_all add: marked_def noLogFile_def)
  have mk: "Logger_markFragmentStart s = Inr (True, marked)"
    using assms by (simp add: Logger_markFragmentStart_def openLogFile_def marked_def)
  have rd: "Logger_getFragment (appendToFile fn t marked)
      = (if utf8_valid t
         then Inr (Some (universalNewlines t),
                   if t \<noteq> [] then (appendToFile fn t marked)\<lparr> fragmentStart := None \<rparr>
                   else appendToFile fn t marked)
         else Inl UnicodeDecodeError)" for t
  proof -
    have fs: "fragmentStart (appendToFile fn t marked) = Some (length content)"
      using m(4) by (simp add: appendToFile_def)
    have nl: "\<not> noLogFile (appendToFile fn t marked)"
      using m(1) by (simp add: noLogFile_append)
    have ol: "openLogFile (appendToFile fn t marked) = Inr (content @ t)"
      by (rule openLogFile_append [OF m(2) m(3)])
    show ?thesis
      by (simp add: Logger_getFragment_def fs nl ol readTextFrom_appended
          universalNewlines_Nil)
  qed
  have emp: "Logger_getFragment marked = Inr (Some [], marked)"
    using m by (simp add: Logger_getFragment_def openLogFile_def readTextFrom_def)
  show ?thesis
    using mk rd [of added] rd [of Nil] emp universalNewlines_no_CR [of added] by simp
qed

theorem fragment_round_trip_witness:
  "Logger_markFragmentStart exampleState
     = Inr (True, exampleState\<lparr> fragmentStart := Some (length ''INFO - core'') \<rparr>)
   \<and> Logger_getFragment (appendToFile ''nvda.log'' ''ERROR''
        (exampleState\<lparr> fragmentStart := Some (length ''INFO - core'') \<rparr>))
       = Inr (Some ''ERROR'', (appendToFile ''nvda.log'' ''ERROR''
              (exampleState\<lparr> fragmentStart := Some (length ''INFO - core'') \<rparr>))
                \<lparr> fragmentStart := None \<rparr>)
   \<and> Logger_getFragment (appendToFile ''nvda.log'' [CHR 0xFF]
        (exampleState\<lparr> fragmentStart := Some (length ''INFO - core'') \<rparr>))
       = Inl UnicodeDecodeError
   \<and> Logger_getFragment (exampleState\<lparr> fragmentStart := Some (length ''INFO - core'') \<rparr>)
       = Inr (Some [], exampleState\<lparr> fragmentStart := Some (length ''INFO - core'') \<rparr>)"
proof -
  have a: "\<not> noLogFile exampleState" "logFileName (appArgs exampleState) = Some ''nvda.log''"
     "files exampleState ''nvda.log'' = Some ''INFO - core''"
    by (simp_all add: exampleState_def noLogFile_def)
  have v: "utf8_valid ''ERROR''" "\<not> utf8_valid [CHR 0xFF]"
    by (simp_all add: between_def)
  from fragment_round_trip [OF a, of "''ERROR''"] fragment_round_trip [OF a, of "[CHR 0xFF]"] v
  show ?thesis by simp
qed

section \<open>Secure mode\<close>

text \<open>
  Claim C5: in secure mode \<^verbatim>\<open>markFragmentStart\<close> returns \<^verbatim>\<open>False\<close> and stores no
  mark, \<^verbatim>\<open>getFragment\<close> returns \<^verbatim>\<open>None\<close>, and \<^verbatim>\<open>Logger._log\<close> behaves as if
  \<^verbatim>\<open>activateLogViewer\<close> were \<^verbatim>\<open>False\<close>: no log call, through \<^verbatim>\<open>_log\<close> itself or
  through \<^verbatim>\<open>exception\<close>, \<^verbatim>\<open>debugWarning\<close>, \<^verbatim>\<open>io\<close> or \<^verbatim>\<open>warning\<close>, makes a call to
  the log viewer, whatever its arguments.
\<close>

theorem secure_mode:
  assumes "secure (appArgs s)"
  shows "Logger_markFragmentStart s = Inr (False, s)
    \<and> Logger_getFragment s = Inr (None, s)
    \<and> Logger_log env lvl m exc cp activateLogViewer stack f s
        = Logger_log env lvl m exc cp False stack f s
    \<and> (\<forall>s'. Logger_log env lvl m exc cp activateLogViewer stack f s = Inr s'
          \<longrightarrow> viewerCalls s' = viewerCalls s)
    \<and> (\<forall>s'. Logger_exception env rpc m ei cp activateLogViewer stack f s = Inr s'
          \<longrightarrow> viewerCalls s' = viewerCalls s)
    \<and> (\<forall>s'. Logger_debugWarning env m cp activateLogViewer stack f s = Inr s'
          \<longrightarrow> viewerCalls s' = viewerCalls s)
    \<and> (\<forall>s'. Logger_io env m cp activateLogViewer stack f s = Inr s'
          \<longrightarrow> viewerCalls s' = viewerCalls s)
    \<and> (\<forall>s'. Logger_warning env m cp activateLogViewer stack f s = Inr s'
          \<longrightarrow> viewerCalls s' = viewerCalls s)"
proof (intro conjI allI impI)
  show "Logger_markFragmentStart s = Inr (False, s)"
    using assms by (simp add: Logger_markFragmentStart_def noLogFile_def)
  show "Logger_getFragment s = Inr (None, s)"
    using assms by (simp add: Logger_getFragment_def noLogFile_def split: option.splits)
  show "Logger_log env lvl m exc cp activateLogViewer stack f s
        = Logger_log env lvl m exc cp False stack f s"
    by (rule Logger_log_secure [OF assms])
  have quiet: "viewerCalls s' = viewerCalls s"
    if "Logger_log env l m exc' cp activateLogViewer stack f s = Inr s'" for l exc' s'
    using that Logger_log_secure [OF assms, of env l m exc' cp activateLogViewer stack f]
      Logger_log_no_activation [of env l m exc' cp stack f s s'] by simp
  show "viewerCalls s' = viewerCalls s"
    if "Logger_log env lvl m exc cp activateLogViewer stack f s = Inr s'" for s'
    using that by (rule quiet)
  show "viewerCalls s' = viewerCalls s"
    if "Logger_exception env rpc m ei cp activateLogViewer stack f s = Inr s'" for s'
    using that quiet by (auto simp: Logger_exception_def Let_def split: if_splits)
  show "viewerCalls s' = viewerCalls s"
    if "Logger_debugWarning env m cp activateLogViewer stack f s = Inr s'" for s'
    using that quiet by (auto simp: Logger_debugWarning_def split: if_splits)
  show "viewerCalls s' = viewerCalls s"
    if "Logger_io env m cp activateLogViewer stack f s = Inr s'" for s'
    using that quiet by (auto simp: Logger_io_def split: if_splits)
  show "viewerCalls s' = viewerCalls s"
    if "Logger_warning env m cp activateLogViewer stack f s = Inr s'" for s'
    using that quiet by (auto simp: Logger_warning_def split: if_splits)
qed

theorem secure_mode_witness:
  "Logger_markFragmentStart secureState = Inr (False, secureState)
   \<and> Logger_getFragment secureState = Inr (None, secureState)
   \<and> Logger_log exampleEnv INFO ''started'' None [] True NoStackInfo moduleFrame secureState
       = Inr (secureState\<lparr> emitted := [\<lparr> rec_levelno = INFO, rec_msg = ''started'',
           rec_exc = None, rec_codepath = ''speech'' \<rparr>] \<rparr>)
   \<and> viewerCalls (projr (Logger_log exampleEnv INFO ''started'' None [] True NoStackInfo
        moduleFrame secureState)) = []"
proof -
  have sec: "secure (appArgs secureState)"
    by (simp add: secureState_def exampleState_def)
  have run: "Logger_log exampleEnv INFO ''started'' None [] False NoStackInfo moduleFrame secureState
       = Inr (secureState\<lparr> emitted := [\<lparr> rec_levelno = INFO, rec_msg = ''started'',
           rec_exc = None, rec_codepath = ''speech'' \<rparr>] \<rparr>)"
    by (simp add: Logger_log_def super_log_def getCodePath_moduleFrame secureState_def
        exampleState_def)
  from secure_mode [OF sec, of exampleEnv INFO "''started''" None "[]" True NoStackInfo moduleFrame]
  show ?thesis
    by (simp add: run) (simp add: secureState_def exampleState_def)
qed

section \<open>File handler: theorems\<close>

text \<open>
  Claim C9, as the specification states it: the audible-alert subsystem is notified for
  every record at ERROR or above when the error sound is enabled. The source tests
  for CRITICAL first and reaches the notification in the \<^verbatim>\<open>elif\<close> branch only: a
  CRITICAL record, with the error sound enabled, triggers the system beep and no
  notification.
\<close>

theorem file_handler_counterexample:
  "spec_notified False (Some 1) criticalRecord
   \<and> ErrorSoundNotify \<notin> set (FileHandler_handle False (Some 1) criticalRecord)"
  by (simp add: spec_notified_def FileHandler_handle_def shouldPlayErrorSound_def
      criticalRecord_def level_defs)

text \<open>
  Claim C9, amended: a record at CRITICAL or above triggers the system alert sound,
  before the inherited handler writes the record, and no notification; a record at
  ERROR or above and below CRITICAL notifies the audible-alert subsystem, before the
  record is written, when the error sound is enabled (a test version, or the
  configuration value 1); every other record is written without any sound.
\<close>

theorem file_handler_alerts:
  "(CRITICAL \<le> rec_levelno r \<longrightarrow>
      FileHandler_handle isTestVersion conf r = [MessageBeep, SuperHandle r])
   \<and> (ERROR \<le> rec_levelno r \<and> rec_levelno r < CRITICAL
        \<and> (isTestVersion \<or> conf = Some 1) \<longrightarrow>
      FileHandler_handle isTestVersion conf r = [ErrorSoundNotify, SuperHandle r])
   \<and> (rec_levelno r < ERROR
        \<or> (rec_levelno r < CRITICAL \<and> \<not> isTestVersion \<and> conf \<noteq> Some 1) \<longrightarrow>
      FileHandler_handle isTestVersion conf r = [SuperHandle r])"
  by (auto simp: FileHandler_handle_def shouldPlayErrorSound_def level_defs
      split: option.splits)

theorem file_handler_alerts_witness:
  "FileHandler_handle False (Some 1) criticalRecord = [MessageBeep, SuperHandle criticalRecord]
   \<and> FileHandler_handle False (Some 1) (criticalRecord\<lparr> rec_levelno := ERROR \<rparr>)
       = [ErrorSoundNotify, SuperHandle (criticalRecord\<lparr> rec_levelno := ERROR \<rparr>)]
   \<and> FileHandler_handle False (Some 0) (criticalRecord\<lparr> rec_levelno := ERROR \<rparr>)
       = [SuperHandle (criticalRecord\<lparr> rec_levelno := ERROR \<rparr>)]"
  using file_handler_alerts [of criticalRecord False "Some 1"]
    file_handler_alerts [of "criticalRecord\<lparr> rec_levelno := ERROR \<rparr>" False "Some 1"]
    file_handler_alerts [of "criticalRecord\<lparr> rec_levelno := ERROR \<rparr>" False "Some 0"]
  by (simp add: criticalRecord_def level_defs)

section \<open>Frame inspector: theorems\<close>

text \<open>
  Claim C6, as the specification states it: a call made from inside a property
  accessor of a class is resolved to \<open>module.Class.function\<close>. The source looks at the
  getter and at the setter of a property and not at its deleter: for a call made from
  inside the deleter of the property \<open>rate\<close> of class \<open>Base\<close>, the codepath has no
  class segment.
\<close>

theorem codepath_of_call_counterexample:
  "f_locals deleterFrame ''self'' = Some (Instance [derivedClass, baseClass, objectClass])
   \<and> find (spec_definesMethod (f_code deleterFrame) (co_name deleterFrame))
        [derivedClass, baseClass, objectClass] = Some baseClass
   \<and> getCodePath exampleEnv deleterFrame = Inr ''speech.rate''
   \<and> getCodePath exampleEnv deleterFrame \<noteq> Inr ''speech.Base.rate''"
proof -
  note classes = derivedClass_def baseClass_def objectClass_def
  have "resolveClassName deleterFrame ''rate'' = Inr []"
    by (simp add: resolveClassName_def hasattr_def deleterFrame_def classes)
  with getCodePath_segments [OF modulePath_examples(9), of "[]"]
  have "getCodePath exampleEnv deleterFrame = Inr ''speech.rate''"
    by (simp add: deleterFrame_def)
  then show ?thesis
    by (simp add: spec_definesMethod_def deleterFrame_def classes)
qed

text \<open>
  Claim C6, amended: let the resolver find the module path of the frame, and let the
  function have a name that does not start with \<open><\<close>. If the function takes no
  argument, the codepath is \<open>module.function\<close>. If it takes arguments and the first
  one is bound, to a class with a given MRO or to an instance of such a class, the
  codepath is \<open>module.Class.function\<close> for the first class of that MRO that holds
  the code of the frame under the name of the function as a function, a class method
  or the getter or setter of a property; and it is \<open>module.function\<close> when no class
  of the MRO does.
\<close>

theorem codepath_of_call:
  assumes "modulePath env f = Inr path" "path \<noteq> []"
    and "co_name f \<noteq> []" "\<not> prefix ''<'' (co_name f)"
  shows "(co_argcount f = 0 \<longrightarrow> getCodePath env f = Inr (path @ ''.'' @ co_name f))
    \<and> (\<forall>v vs mro cls.
          0 < co_argcount f \<and> co_varnames f = v # vs
          \<and> (f_locals f v = Some (Instance mro) \<or> f_locals f v = Some (TypeObject mro))
          \<and> find (definesMethod (f_code f) (co_name f)) mro = Some cls
          \<longrightarrow> getCodePath env f = Inr (path @ ''.'' @ cls_name cls @ ''.'' @ co_name f))
    \<and> (\<forall>v vs mro.
          0 < co_argcount f \<and> co_varnames f = v # vs
          \<and> (f_locals f v = Some (Instance mro) \<or> f_locals f v = Some (TypeObject mro))
          \<and> (\<forall>cls \<in> set mro. \<not> definesMethod (f_code f) (co_name f) cls)
          \<longrightarrow> getCodePath env f = Inr (path @ ''.'' @ co_name f))"
proof (intro conjI allI impI)
  assume "co_argcount f = 0"
  then have "resolveClassName f (co_name f) = Inr []"
    by (simp add: resolveClassName_def)
  with getCodePath_segments [OF assms(1), of "[]"] assms
  show "getCodePath env f = Inr (path @ ''.'' @ co_name f)" by simp
next
  fix v vs mro cls
  assume a: "0 < co_argcount f \<and> co_varnames f = v # vs
    \<and> (f_locals f v = Some (Instance mro) \<or> f_locals f v = Some (TypeObject mro))
    \<and> find (definesMethod (f_code f) (co_name f)) mro = Some cls"
  then have "definesMethod (f_code f) (co_name f) cls"
    by (auto simp: find_Some_iff)
  then have named: "cls_name cls \<noteq> []"
    by (simp add: definesMethod_def)
  from a have "resolveClassName f (co_name f) = Inr (mroLoop (f_code f) (co_name f) mro)"
    by (intro resolveClassName_receiver [of f v vs mro]) auto
  with a have "resolveClassName f (co_name f) = Inr (cls_name cls)"
    by (simp add: mroLoop_find)
  with getCodePath_segments [OF assms(1), of "cls_name cls"] assms named
  show "getCodePath env f = Inr (path @ ''.'' @ cls_name cls @ ''.'' @ co_name f)" by simp
next
  fix v vs mro
  assume a: "0 < co_argcount f \<and> co_varnames f = v # vs
    \<and> (f_locals f v = Some (Instance mro) \<or> f_locals f v = Some (TypeObject mro))
    \<and> (\<forall>cls \<in> set mro. \<not> definesMethod (f_code f) (co_name f) cls)"
  then have none: "find (definesMethod (f_code f) (co_name f)) mro = None"
    by (simp add: find_None_iff)
  from a have "resolveClassName f (co_name f) = Inr (mroLoop (f_code f) (co_name f) mro)"
    by (intro resolveClassName_receiver [of f v vs mro]) auto
  with none have "resolveClassName f (co_name f) = Inr []"
    by (simp add: mroLoop_find)
  with getCodePath_segments [OF assms(1), of "[]"] assms
  show "getCodePath env f = Inr (path @ ''.'' @ co_name f)" by simp
qed

theorem codepath_of_call_witness:
  "getCodePath exampleEnv methodFrame = Inr ''speech.Base.speak''
   \<and> getCodePath exampleEnv classMethodFrame = Inr ''speech.Base.create''
   \<and> getCodePath exampleEnv setterFrame = Inr ''speech.Base.rate''
   \<and> getCodePath exampleEnv freeFunctionFrame = Inr ''speech.speak''
   \<and> getCodePath exampleEnv configFrame = Inr ''logHandler.setLogLevelFromConfig''"
proof -
  note classes = derivedClass_def baseClass_def objectClass_def
  have 1: "getCodePath exampleEnv methodFrame = Inr ''speech.Base.speak''"
    using codepath_of_call [OF modulePath_examples(1), THEN conjunct2, THEN conjunct1,
        rule_format, of "''self''" "[]" "[derivedClass, baseClass, objectClass]" baseClass]
    by (simp add: definesMethod_def methodFrame_def classes)
  have 2: "getCodePath exampleEnv classMethodFrame = Inr ''speech.Base.create''"
    using codepath_of_call [OF modulePath_examples(10), THEN conjunct2, THEN conjunct1,
        rule_format, of "''cls''" "[]" "[derivedClass, baseClass, objectClass]" baseClass]
    by (simp add: definesMethod_def classMethodFrame_def classes)
  have 3: "getCodePath exampleEnv setterFrame = Inr ''speech.Base.rate''"
    using codepath_of_call [OF modulePath_examples(8), THEN conjunct2, THEN conjunct1,
        rule_format, of "''self''" "[''value'']" "[derivedClass, baseClass, objectClass]"
        baseClass]
    by (simp add: definesMethod_def setterFrame_def classes)
  have 4: "getCodePath exampleEnv freeFunctionFrame = Inr ''speech.speak''"
    using codepath_of_call [OF modulePath_examples(2), THEN conjunct2, THEN conjunct2,
        rule_format, of "''obj''" "[]" "[derivedClass, baseClass, objectClass]"]
    by (simp add: definesMethod_def freeFunctionFrame_def classes)
  have 5: "getCodePath exampleEnv configFrame = Inr ''logHandler.setLogLevelFromConfig''"
    using codepath_of_call [OF modulePath_examples(5), THEN conjunct1]
    by (simp add: configFrame_def)
  show ?thesis using 1 2 3 4 5 by simp
qed

text \<open>
  Claim C10: let the name of the code of the frame start with \<open><\<close>, and let the resolver
  find the module path. Then the codepath is the module path alone, with neither a class
  nor a function segment: when the code takes no argument, and when its first argument is
  bound and no class in the MRO of that argument has an attribute with the empty name
  (attribute names that come from Python source are identifiers, which are not empty).
\<close>

theorem codepath_of_anonymous_code:
  assumes "prefix ''<'' (co_name f)" "modulePath env f = Inr path"
  shows "(co_argcount f = 0 \<longrightarrow> getCodePath env f = Inr path)
    \<and> (\<forall>v vs arg0.
          co_varnames f = v # vs \<and> f_locals f v = Some arg0
          \<and> (\<forall>cls \<in> set (topCls_mro arg0). cls_dict cls [] = None)
          \<longrightarrow> getCodePath env f = Inr path)"
proof (intro conjI allI impI)
  assume "co_argcount f = 0"
  then have "resolveClassName f [] = Inr []"
    by (simp add: resolveClassName_def)
  with getCodePath_segments [OF assms(2), of "[]"] assms(1)
  show "getCodePath env f = Inr path" by simp
next
  fix v vs arg0
  assume a: "co_varnames f = v # vs \<and> f_locals f v = Some arg0
    \<and> (\<forall>cls \<in> set (topCls_mro arg0). cls_dict cls [] = None)"
  then have "\<not> hasattr (topCls_mro arg0) []"
    by (simp add: hasattr_def list_ex_iff)
  with a have "resolveClassName f [] = Inr []"
    by (simp add: resolveClassName_def Let_def)
  with getCodePath_segments [OF assms(2), of "[]"] assms(1)
  show "getCodePath env f = Inr path" by simp
qed

theorem codepath_of_anonymous_code_witness:
  "getCodePath exampleEnv moduleFrame = Inr ''speech''
   \<and> getCodePath exampleEnv lambdaFrame = Inr ''speech''
   \<and> getCodePath exampleEnv addonFrame = Inr ''external:globalPlugins.clock''"
proof -
  have 1: "getCodePath exampleEnv moduleFrame = Inr ''speech''"
    using codepath_of_anonymous_code [OF _ modulePath_examples(4), THEN conjunct1]
    by (simp add: moduleFrame_def)
  have 2: "getCodePath exampleEnv lambdaFrame = Inr ''speech''"
    using codepath_of_anonymous_code [OF _ modulePath_examples(3), THEN conjunct2, rule_format,
        of "''self''" "[]" "Instance [derivedClass, baseClass, objectClass]"]
    by (simp add: lambdaFrame_def derivedClass_def baseClass_def objectClass_def)
  have 3: "getCodePath exampleEnv addonFrame = Inr ''external:globalPlugins.clock''"
    using codepath_of_anonymous_code [OF _ modulePath_examples(7), THEN conjunct1]
    by (simp add: addonFrame_def)
  show ?thesis using 1 2 3 by simp
qed

section \<open>Level policy: the configurable state\<close>

text \<open>
  Claim C7: let no forced condition hold, and let \<open>f\<close> be the frame of
  \<^verbatim>\<open>setLogLevelFromConfig\<close>, whose code has a file name and takes no argument. If the
  configured level name is none of IO, DEBUG, DEBUGWARNING, INFO and OFF, the function
  calls \<^verbatim>\<open>log.warning\<close> with a message that names the setting (the record is handed
  on when the threshold in force lets WARNING through), sets the threshold to INFO and
  the configuration value to \<open>INFO\<close>, and returns normally. If the name is one of the
  five, the threshold becomes the level of that name and nothing else changes.
\<close>

theorem config_level:
  assumes "\<not> secure (appArgs s)" "\<not> debugLogging (appArgs s)" "logLevel (appArgs s) = 0"
    "\<not> noLogging (appArgs s)"
    and "co_filename f \<noteq> []" "co_argcount f = 0"
  shows "(loggingLevel s \<notin> {''IO'', ''DEBUG'', ''DEBUGWARNING'', ''INFO'', ''OFF''}
          \<longrightarrow> (\<exists>cp. getCodePath env f = Inr cp
                \<and> setLogLevelFromConfig env f s
                    = Inr (s\<lparr> emitted := emitted s @
                          (if rootLevel s \<le> WARNING
                           then [\<lparr> rec_levelno = WARNING,
                                   rec_msg = ''invalid setting for logging level: ''
                                             @ loggingLevel s,
                                   rec_exc = None, rec_codepath = cp \<rparr>]
                           else []),
                        loggingLevel := ''INFO'', rootLevel := INFO \<rparr>)))
    \<and> (\<forall>(name, lvl) \<in> set [(''IO'', IO), (''DEBUG'', DEBUG), (''DEBUGWARNING'', DEBUGWARNING),
                             (''INFO'', INFO), (''OFF'', OFF)].
          loggingLevel s = name \<longrightarrow> setLogLevelFromConfig env f s = Inr (s\<lparr> rootLevel := lvl \<rparr>))"
proof (intro conjI impI)
  assume a: "loggingLevel s \<notin> {''IO'', ''DEBUG'', ''DEBUGWARNING'', ''INFO'', ''OFF''}"
  from getCodePath_no_arguments [OF assms(5,6)]
  obtain cp where cp: "getCodePath env f = Inr cp" by blast
  have nf: "\<not> isLogLevelForced (appArgs s)"
    using assms by (simp add: isLogLevelForced_def)
  from a have bad: "getLevelName (LevelName (loggingLevel s))
      \<notin> set (map LevelNo [DEBUG, IO, DEBUGWARNING, INFO, OFF])"
    by (rule getLevelName_not_allowed)
  have w: "Logger_warning env (''invalid setting for logging level: '' @ loggingLevel s)
      [] False NoStackInfo f s
    = Inr (s\<lparr> emitted := emitted s @
        (if rootLevel s \<le> WARNING
         then [\<lparr> rec_levelno = WARNING,
                 rec_msg = ''invalid setting for logging level: '' @ loggingLevel s,
                 rec_exc = None, rec_codepath = cp \<rparr>]
         else []) \<rparr>)"
    by (rule Logger_warning_emitted [OF cp])
  have "setLogLevelFromConfig env f s
    = Inr (s\<lparr> emitted := emitted s @
          (if rootLevel s \<le> WARNING
           then [\<lparr> rec_levelno = WARNING,
                   rec_msg = ''invalid setting for logging level: '' @ loggingLevel s,
                   rec_exc = None, rec_codepath = cp \<rparr>]
           else []),
        loggingLevel := ''INFO'', rootLevel := INFO \<rparr>)"
    unfolding setLogLevelFromConfig_def Let_def
    using nf bad by (simp only: if_True if_False not_False_eq_True w getLevelName_INFO
        sum.case level_or_name.case)
  with cp show "\<exists>cp. getCodePath env f = Inr cp
      \<and> setLogLevelFromConfig env f s
          = Inr (s\<lparr> emitted := emitted s @
                (if rootLevel s \<le> WARNING
                 then [\<lparr> rec_levelno = WARNING,
                         rec_msg = ''invalid setting for logging level: '' @ loggingLevel s,
                         rec_exc = None, rec_codepath = cp \<rparr>]
                 else []),
              loggingLevel := ''INFO'', rootLevel := INFO \<rparr>)"
    by blast
next
  have nf: "\<not> isLogLevelForced (appArgs s)"
    using assms by (simp add: isLogLevelForced_def)
  show "\<forall>(name, lvl) \<in> set [(''IO'', IO), (''DEBUG'', DEBUG), (''DEBUGWARNING'', DEBUGWARNING),
                             (''INFO'', INFO), (''OFF'', OFF)].
          loggingLevel s = name \<longrightarrow> setLogLevelFromConfig env f s = Inr (s\<lparr> rootLevel := lvl \<rparr>)"
    using nf by (simp add: setLogLevelFromConfig_def nameToLevel_def level_defs)
qed

theorem config_level_witness:
  "setLogLevelFromConfig exampleEnv configFrame (exampleState\<lparr> loggingLevel := ''WARNING'' \<rparr>)
     = Inr (exampleState\<lparr> emitted := [\<lparr> rec_levelno = WARNING,
              rec_msg = ''invalid setting for logging level: WARNING'',
              rec_exc = None, rec_codepath = ''logHandler.setLogLevelFromConfig'' \<rparr>],
            loggingLevel := ''INFO'', rootLevel := INFO \<rparr>)
   \<and> setLogLevelFromConfig exampleEnv configFrame (exampleState\<lparr> loggingLevel := ''DEBUGWARNING'' \<rparr>)
     = Inr (exampleState\<lparr> loggingLevel := ''DEBUGWARNING'', rootLevel := DEBUGWARNING \<rparr>)"
proof -
  have 1: "setLogLevelFromConfig exampleEnv configFrame (exampleState\<lparr> loggingLevel := ''WARNING'' \<rparr>)
     = Inr (exampleState\<lparr> emitted := [\<lparr> rec_levelno = WARNING,
              rec_msg = ''invalid setting for logging level: WARNING'',
              rec_exc = None, rec_codepath = ''logHandler.setLogLevelFromConfig'' \<rparr>],
            loggingLevel := ''INFO'', rootLevel := INFO \<rparr>)"
    using config_level [of "exampleState\<lparr> loggingLevel := ''WARNING'' \<rparr>" configFrame exampleEnv,
        THEN conjunct1]
    by (simp add: getCodePath_configFrame exampleState_def level_defs)
       (simp add: configFrame_def)
  have 2: "setLogLevelFromConfig exampleEnv configFrame (exampleState\<lparr> loggingLevel := ''DEBUGWARNING'' \<rparr>)
     = Inr (exampleState\<lparr> loggingLevel := ''DEBUGWARNING'', rootLevel := DEBUGWARNING \<rparr>)"
    using config_level [of "exampleState\<lparr> loggingLevel := ''DEBUGWARNING'' \<rparr>" configFrame exampleEnv,
        THEN conjunct2]
    by (simp add: exampleState_def configFrame_def)
  show ?thesis using 1 2 by simp
qed

section \<open>Failure hooks: theorems\<close>

text \<open>
  Claim C8, as the specification states it: an uncaught exception in a thread, other
  than \<^verbatim>\<open>SystemExit\<close>, produces exactly one record at ERROR. The hook passes the
  exception to \<^verbatim>\<open>Logger.exception\<close>, which classifies it: the cancellation exception
  raised in a thread is logged at DEBUGWARNING, so that with the threshold INFO, which
  \<^verbatim>\<open>initialize\<close> sets by default, no record is produced, and with the threshold DEBUG
  the one record produced is not at ERROR.
\<close>

theorem thread_hook_counterexample:
  "exc_type cancelledInThread \<noteq> SystemExitClass
   \<and> threadExceptHook exampleEnv windowsRPC hookFrame cancelledInThread exampleState
       = Inr exampleState
   \<and> emitted exampleState = []
   \<and> map rec_levelno (emitted (projr (threadExceptHook exampleEnv windowsRPC hookFrame
        cancelledInThread (exampleState\<lparr> rootLevel := DEBUG \<rparr>)))) = [DEBUGWARNING]
   \<and> DEBUGWARNING \<noteq> ERROR"
  by (simp add: threadExceptHook_def Logger_exception_def Logger_log_def super_log_def
      exceptionLevel_def isEnabledFor_def getCodePath_hookFrame cancelledInThread_def
      exampleState_def level_defs)

text \<open>
  Claim C8, amended: for \<^verbatim>\<open>SystemExit\<close> the hook produces no record. For every other
  exception it produces no record when the level chosen by the exception classifier
  is below the threshold, and otherwise exactly one record, at that level (ERROR,
  or DEBUGWARNING for the exceptions of the allow-lists), whose message is
  \<open>Exception in thread NAME:\<close> when the thread is known and empty when it is not.
\<close>

theorem thread_hook:
  "(exc_type a = SystemExitClass \<longrightarrow> threadExceptHook env rpc f a s = Inr s)
   \<and> (exc_type a \<noteq> SystemExitClass
        \<and> \<not> isEnabledFor (rootLevel s) (exceptionLevel rpc (exc_value a))
        \<longrightarrow> threadExceptHook env rpc f a s = Inr s)
   \<and> (\<forall>cp. exc_type a \<noteq> SystemExitClass
          \<and> isEnabledFor (rootLevel s) (exceptionLevel rpc (exc_value a))
          \<and> getCodePath env f = Inr cp
          \<longrightarrow> threadExceptHook env rpc f a s
              = Inr (s\<lparr> emitted := emitted s @
                  [\<lparr> rec_levelno = exceptionLevel rpc (exc_value a),
                     rec_msg = (case thread_name a of
                                  None \<Rightarrow> []
                                | Some n \<Rightarrow> ''Exception in thread '' @ n @ '':'' @ [CHR 0x0A]),
                     rec_exc = exc_value a, rec_codepath = cp \<rparr>] \<rparr>))
   \<and> (\<not> isExpectedException rpc (exc_value a) \<longrightarrow> exceptionLevel rpc (exc_value a) = ERROR)
   \<and> (isExpectedException rpc (exc_value a) \<longrightarrow> exceptionLevel rpc (exc_value a) = DEBUGWARNING)"
  by (simp add: threadExceptHook_def Logger_exception_def Logger_log_def super_log_def
      exceptionLevel_def Let_def)

theorem thread_hook_witness:
  "threadExceptHook exampleEnv windowsRPC hookFrame
      \<lparr> exc_type = SystemExitClass, exc_value = None, thread_name = Some ''Thread-1'' \<rparr>
      exampleState = Inr exampleState
   \<and> threadExceptHook exampleEnv windowsRPC hookFrame
      \<lparr> exc_type = ExceptionClass ''ValueError'', exc_value = Some (OtherException ''ValueError''),
        thread_name = Some ''Thread-1'' \<rparr> exampleState
     = Inr (exampleState\<lparr> emitted := [\<lparr> rec_levelno = ERROR,
          rec_msg = ''Exception in thread Thread-1:'' @ [CHR 0x0A],
          rec_exc = Some (OtherException ''ValueError''),
          rec_codepath = ''logHandler._threadExceptHook'' \<rparr>] \<rparr>)"
proof -
  let ?exit = "\<lparr> exc_type = SystemExitClass, exc_value = None, thread_name = Some ''Thread-1'' \<rparr>"
  let ?err = "\<lparr> exc_type = ExceptionClass ''ValueError'',
    exc_value = Some (OtherException ''ValueError''), thread_name = Some ''Thread-1'' \<rparr>"
  have 1: "threadExceptHook exampleEnv windowsRPC hookFrame ?exit exampleState = Inr exampleState"
    using thread_hook [of ?exit exampleEnv windowsRPC hookFrame exampleState] by simp
  have 2: "threadExceptHook exampleEnv windowsRPC hookFrame ?err exampleState
     = Inr (exampleState\<lparr> emitted := [\<lparr> rec_levelno = ERROR,
          rec_msg = ''Exception in thread Thread-1:'' @ [CHR 0x0A],
          rec_exc = Some (OtherException ''ValueError''),
          rec_codepath = ''logHandler._threadExceptHook'' \<rparr>] \<rparr>)"
    using thread_hook [of ?err exampleEnv windowsRPC hookFrame exampleState]
    by (simp add: getCodePath_hookFrame exceptionLevel_def isEnabledFor_def exampleState_def
        level_defs)
  show ?thesis using 1 2 by simp
qed

end
